theory Spec2Isabelle
  imports Main "HOL-Library.Log_Nat"
begin

section \<open>JavaScript values used by the service\<close>

text \<open>
  The service is one Express application (\<^verbatim>\<open>index.js\<close>): a metrics middleware, six
  GET routes, a database-connection routine and a SIGTERM handler. Its handlers compute
  with JavaScript numbers and strings, so these come first.

  A JavaScript number is an IEEE-754 double. The only numbers the handlers compute are
  results of \<^verbatim>\<open>parseInt\<close>, of adding one, and document counts: integers, the two
  infinities, or NaN. \<open>Num i\<close> stands for the double whose value is the integer \<open>i\<close>
  (negative zero is not told apart from zero: the handlers only ever add one to it).
\<close>

datatype jsnum = Num int | NaN | PosInf | NegInf

text \<open>
  Rounding of a non-negative integer to the nearest double, ties to the even
  significand. Every integer up to \<open>2 ^ 53\<close> is a double; above, a double keeps 53
  significant bits.
\<close>

definition round53 :: "nat \<Rightarrow> nat" where
  "round53 m =
     (if m \<le> 2 ^ 53 then m
      else let e = floorlog 2 m - 53; q = m div 2 ^ e; r = m mod 2 ^ e; h = 2 ^ (e - 1)
           in if h < r \<or> (r = h \<and> odd q) then (q + 1) * 2 ^ e else q * 2 ^ e)"

definition to_number :: "int \<Rightarrow> jsnum" where
  "to_number i =
     (let m = round53 (nat \<bar>i\<bar>)
      in if 2 ^ 1024 \<le> m then (if i < 0 then NegInf else PosInf)
         else Num (if i < 0 then - int m else int m))"

text \<open>The \<^verbatim>\<open>+\<close> of two numbers: the exact sum, rounded.\<close>

fun js_add :: "jsnum \<Rightarrow> jsnum \<Rightarrow> jsnum" where
  "js_add (Num a) (Num b) = to_number (a + b)"
| "js_add NaN _ = NaN"
| "js_add _ NaN = NaN"
| "js_add PosInf NegInf = NaN"
| "js_add NegInf PosInf = NaN"
| "js_add PosInf _ = PosInf"
| "js_add _ PosInf = PosInf"
| "js_add NegInf _ = NegInf"
| "js_add _ NegInf = NegInf"

subsection \<open>Decimal digits\<close>

definition digit_char :: "nat \<Rightarrow> char" where
  "digit_char d = ''0123456789'' ! d"

fun dec :: "nat \<Rightarrow> string" where
  "dec n = (if n < 10 then [digit_char n] else dec (n div 10) @ [digit_char (n mod 10)])"

declare dec.simps [simp del]

text \<open>
  The value of a character as a digit of radix \<open>R\<close> (10 or 16), if it is one; letters
  count in either case.
\<close>

definition digit_val :: "nat \<Rightarrow> char \<Rightarrow> nat option" where
  "digit_val R c =
     (let k = (of_char c :: nat);
          v = (if 48 \<le> k \<and> k \<le> 57 then k - 48
               else if 97 \<le> k \<and> k \<le> 122 then k - 87
               else if 65 \<le> k \<and> k \<le> 90 then k - 55
               else R)
      in if v < R then Some v else None)"

definition is_digit :: "nat \<Rightarrow> char \<Rightarrow> bool" where
  "is_digit R c = (digit_val R c \<noteq> None)"

definition digits_value :: "nat \<Rightarrow> string \<Rightarrow> nat" where
  "digits_value R Z = foldl (\<lambda>a c. a * R + (case digit_val R c of Some v \<Rightarrow> v | None \<Rightarrow> 0)) 0 Z"

subsection \<open>parseInt\<close>

text \<open>
  Strings are byte strings, as Redis stores them; the client hands them to JavaScript
  decoded as UTF-8. \<^verbatim>\<open>parseInt\<close> first drops leading white space and line
  terminators: the code points 9 to 13, 32, U+00A0, U+1680, U+2000 to U+200A, U+2028,
  U+2029, U+202F, U+205F, U+3000 and U+FEFF, listed here by their UTF-8 bytes.
\<close>

definition white_space :: "nat list list" where
  "white_space =
     [[9], [10], [11], [12], [13], [32], [194, 160], [225, 154, 128],
      [226, 128, 128], [226, 128, 129], [226, 128, 130], [226, 128, 131],
      [226, 128, 132], [226, 128, 133], [226, 128, 134], [226, 128, 135],
      [226, 128, 136], [226, 128, 137], [226, 128, 138],
      [226, 128, 168], [226, 128, 169], [226, 128, 175], [226, 129, 159],
      [227, 128, 128], [239, 187, 191]]"

definition ws_len :: "string \<Rightarrow> nat" where
  "ws_len s =
     (case find (\<lambda>w. take (length w) (map of_char s) = w) white_space of
        None \<Rightarrow> 0
      | Some w \<Rightarrow> length w)"

function strip_ws :: "string \<Rightarrow> string" where
  "strip_ws s = (if ws_len s = 0 then s else strip_ws (drop (ws_len s) s))"
  by pat_completeness auto
termination
proof (relation "measure length")
  show "wf (measure length)" by simp
next
  fix s :: string
  assume nz: "ws_len s \<noteq> 0"
  then obtain w where w: "find (\<lambda>w. take (length w) (map of_char s) = w) white_space = Some w"
    and len: "ws_len s = length w"
    by (auto simp: ws_len_def split: option.splits)
  from w have "take (length w) (map of_char s) = w"
    by (auto simp: find_Some_iff)
  then have "length (take (length w) (map of_char s :: nat list)) = length w"
    by simp
  then have "length w \<le> length s"
    by simp
  moreover from nz len have "0 < length w" by simp
  ultimately have "0 < length s" by (cases s) auto
  with nz show "(drop (ws_len s) s, s) \<in> measure length" by simp
qed

declare strip_ws.simps [simp del]

text \<open>
  \<^verbatim>\<open>parseInt(string)\<close> with no radix, after ECMAScript: drop leading white space, read
  an optional sign, read an optional \<^verbatim>\<open>0x\<close> or \<^verbatim>\<open>0X\<close> (radix 16, else radix 10),
  take the longest run of digits; no digit gives NaN, else the signed value as a
  number. (For more than 20 decimal digits ECMAScript lets an engine approximate; V8
  rounds the exact value, as here.)
\<close>

definition parseInt :: "string \<Rightarrow> jsnum" where
  "parseInt inputString =
     (let S = strip_ws inputString;
          neg = (take 1 S = ''-'');
          S1 = (if take 1 S = ''-'' \<or> take 1 S = ''+'' then drop 1 S else S);
          hex = (take 2 S1 = ''0x'' \<or> take 2 S1 = ''0X'');
          R = (if hex then 16 else 10);
          S2 = (if hex then drop 2 S1 else S1);
          Z = takeWhile (is_digit R) S2
      in if Z = [] then NaN
         else to_number (if neg then - int (digits_value R Z) else int (digits_value R Z)))"

subsection \<open>Number to string\<close>

text \<open>
  \<^verbatim>\<open>Number.prototype.toString()\<close> prints the shortest decimal digits \<open>s\<close> that read
  back as the same double, as an integer with trailing zeros when the value is below
  \<open>10 ^ 21\<close> and in exponent form from there on. For an integer up to \<open>2 ^ 53\<close> these
  are all its digits. \<open>shortest v\<close> gives the digits \<open>s\<close> without trailing zeros and the
  number \<open>n\<close> of digits before the decimal point.
\<close>

definition strip_zeros :: "nat \<Rightarrow> nat" where
  "strip_zeros s = (if s = 0 then 0 else s div 10 ^ (length (takeWhile (\<lambda>c. c = CHR ''0'') (rev (dec s)))))"

definition candidate :: "nat \<Rightarrow> nat \<Rightarrow> nat option" where
  "candidate v e =
     (let lo = v div 10 ^ e; hi = lo + 1;
          lo_ok = (round53 (lo * 10 ^ e) = v); hi_ok = (round53 (hi * 10 ^ e) = v);
          dlo = v - lo * 10 ^ e; dhi = hi * 10 ^ e - v
      in if lo_ok \<and> hi_ok then
           (if dlo < dhi then Some lo else if dhi < dlo then Some hi
            else if even lo then Some lo else Some hi)
         else if lo_ok then Some lo
         else if hi_ok then Some hi
         else None)"

definition shortest :: "nat \<Rightarrow> nat \<times> nat" where
  "shortest v =
     (let nd = length (dec v);
          found = List.map_filter (\<lambda>k. map_option (\<lambda>s. s * 10 ^ (nd - k)) (candidate v (nd - k)))
                    [1..<min nd 17 + 1];
          x = (case found of [] \<Rightarrow> v | y # _ \<Rightarrow> y)
      in (strip_zeros x, length (dec x)))"

definition nat_to_string :: "nat \<Rightarrow> string" where
  "nat_to_string v =
     (if v \<le> 2 ^ 53 then dec v
      else let (s, n) = shortest v; ds = dec s; k = length ds
           in if n \<le> 21 then ds @ replicate (n - k) CHR ''0''
              else take 1 ds @ (if k = 1 then [] else ''.'' @ drop 1 ds) @ ''e+'' @ dec (n - 1))"

fun number_to_string :: "jsnum \<Rightarrow> string" where
  "number_to_string NaN = ''NaN''"
| "number_to_string PosInf = ''Infinity''"
| "number_to_string NegInf = ''-Infinity''"
| "number_to_string (Num i) =
     (if i < 0 then ''-'' @ nat_to_string (nat (- i)) else nat_to_string (nat i))"

section \<open>Requests, responses and the state of the process\<close>

text \<open>
  A thrown value carries a message (\<^verbatim>\<open>error.message\<close>). An awaited call of a client
  library resolves, rejects with an error, or stays pending; which of the three is
  given to each handler run as an \<open>env\<close>. A handler that awaits a pending call sends no
  response. Each handler run is one step on the state.
\<close>

datatype js_error = Error string

fun message :: "js_error \<Rightarrow> string" where
  "message (Error m) = m"

datatype settle = Resolves | Rejects js_error | Pends

text \<open>JavaScript values, as far as the handlers build them.\<close>

datatype json =
    JUndefined
  | JNull
  | JNumber jsnum
  | JString string
  | JDate nat
  | JObjectId nat
  | JObject "(string \<times> json) list"

fun field :: "string \<Rightarrow> json \<Rightarrow> json option" where
  "field k (JObject kvs) = map_of kvs k"
| "field k _ = None"

text \<open>
  What \<^verbatim>\<open>JSON.stringify\<close> makes of a value, which is the body \<^verbatim>\<open>res.json\<close> sends:
  JSON has no NaN and no infinity, a number that is not finite is written \<^verbatim>\<open>null\<close>;
  a property whose value is \<^verbatim>\<open>undefined\<close> is left out. (A date is written as its ISO
  text and an ObjectId as its hexadecimal text; both are kept here as the value they
  are the text of.)
\<close>

primrec stringify :: "json \<Rightarrow> json" where
  "stringify JUndefined = JUndefined"
| "stringify JNull = JNull"
| "stringify (JNumber n) = (case n of Num i \<Rightarrow> JNumber (Num i) | _ \<Rightarrow> JNull)"
| "stringify (JString s) = JString s"
| "stringify (JDate t) = JDate t"
| "stringify (JObjectId i) = JObjectId i"
| "stringify (JObject kvs) =
     JObject (filter (\<lambda>kv. snd kv \<noteq> JUndefined) (map (map_prod id stringify) kvs))"

text \<open>
  What the MongoDB driver stores of a document: a property whose value is
  \<^verbatim>\<open>undefined\<close> is stored as \<^verbatim>\<open>null\<close>.
\<close>

primrec bson :: "json \<Rightarrow> json" where
  "bson JUndefined = JNull"
| "bson JNull = JNull"
| "bson (JNumber n) = JNumber n"
| "bson (JString s) = JString s"
| "bson (JDate t) = JDate t"
| "bson (JObjectId i) = JObjectId i"
| "bson (JObject kvs) = JObject (map (map_prod id bson) kvs)"

record labels =
  l_method :: string
  l_route :: string
  l_status_code :: nat

text \<open>
  The two metrics of the registry, each keyed by its labels: the count of
  \<^verbatim>\<open>http_request_count_total\<close> and the durations observed by
  \<^verbatim>\<open>http_request_duration_seconds\<close>.
\<close>

record registry =
  httpRequestCount :: "labels \<Rightarrow> nat"
  httpRequestDurationMicroseconds :: "labels \<Rightarrow> nat list"

text \<open>
  What a handler hands to \<^verbatim>\<open>res.send\<close> or \<^verbatim>\<open>res.end\<close> (for \<^verbatim>\<open>/metrics\<close>, the
  exposition text of the registry as it stands), the JSON that \<^verbatim>\<open>res.json\<close> sends, or
  the page Express sends when no route matches.
\<close>

datatype body = Send string | Json json | Exposition registry | NotFoundPage

record response =
  statusCode :: nat
  payload :: body

text \<open>\<^verbatim>\<open>res.status(code).json(value)\<close>; the status is 200 when none is set.\<close>

definition res_json :: "nat \<Rightarrow> json \<Rightarrow> response" where
  "res_json code v = \<lparr>statusCode = code, payload = Json (stringify v)\<rparr>"

text \<open>
  A request. \<^verbatim>\<open>req.url\<close> is the request target as Node's HTTP parser hands it over,
  one character for each byte. \<^verbatim>\<open>req.path\<close> and the router both use the pathname
  that \<^verbatim>\<open>parseurl\<close> finds in it. For a target that starts with a slash and has, after
  the slash, no tab, line feed, form feed, carriage return, space, \<^verbatim>\<open>#\<close> and no
  no-break space, \<^verbatim>\<open>parseurl\<close> cuts the pathname itself, at the first \<^verbatim>\<open>?\<close>. Any
  other target (one with a \<^verbatim>\<open>#fragment\<close>, one in absolute form such as
  \<^verbatim>\<open>http://host/health\<close>) it hands to Node's \<^verbatim>\<open>url.parse\<close>, which is no part of the
  service: the pathname that parser gives for the target of a request comes with the
  request as \<open>url_parse_pathname\<close>, \<open>None\<close> when the parser gives \<^verbatim>\<open>null\<close> or throws.
\<close>

record request =
  req_method :: string
  req_url :: string
  req_ip :: string
  user_agent :: "string option"
  url_parse_pathname :: "string option"

definition leaves_fast_path :: "char \<Rightarrow> bool" where
  "leaves_fast_path c = ((of_char c :: nat) \<in> set [9, 10, 12, 13, 32, 35, 160])"

definition fast_path :: "string \<Rightarrow> bool" where
  "fast_path str = (take 1 str = ''/'' \<and> \<not> list_ex leaves_fast_path (drop 1 str))"

definition req_path :: "request \<Rightarrow> string option" where
  "req_path req =
     (if fast_path (req_url req) then Some (takeWhile (\<lambda>c. c \<noteq> CHR ''?'') (req_url req))
      else url_parse_pathname req)"

datatype event =
    Console string
  | ConsoleErr string "js_error option"
  | Call string
  | Exit int

text \<open>
  A process runs, has exited with a code (\<^verbatim>\<open>process.exit\<close>), or has died of an
  exception that nothing caught.
\<close>

datatype proc = Running | Exited int | Uncaught js_error

text \<open>
  The Redis client is closed until \<^verbatim>\<open>connect()\<close> is called, open without a
  connection while the connection is being made or after it was refused, and ready
  once it is made.
\<close>

datatype redis_client = Closed | Offline | Ready

text \<open>
  The state: the Redis keys and the documents of the \<^verbatim>\<open>visits\<close> collection (each with
  its \<^verbatim>\<open>_id\<close>), the state of \<^verbatim>\<open>redisClient\<close>, whether the module variables
  \<^verbatim>\<open>mongoClient\<close> and \<^verbatim>\<open>db\<close> have been assigned, the metrics registry, whether the
  server accepts connections, the number of requests received and not yet answered, the
  state of the process, and the trace of console lines and library calls in the order
  they were made.
\<close>

record app_state =
  redis_keys :: "string \<rightharpoonup> string"
  visits :: "(nat \<times> json) list"
  redisClient :: redis_client
  mongoClient :: bool
  db :: bool
  metrics_registry :: registry
  listening :: bool
  inflight :: nat
  process :: proc
  trace :: "event list"

text \<open>
  What one handler run is given: the clock (the time of \<^verbatim>\<open>new Date()\<close> and the text
  of its \<^verbatim>\<open>toISOString()\<close>), the time the request's timer measures, the id the driver
  gives an inserted document, the outcome of each library call, and what the other
  clients of the \<^verbatim>\<open>visits\<close> collection (other requests of this service among them) do
  to it while the handler waits between its insert and its count: \<open>others\<close> maps the
  collection after the insert to the collection that is counted, and is the identity
  when nobody else writes. A call that resolves acts on the state; a call that is
  rejected or pending leaves the stores as they were.
\<close>

record env =
  date_now :: nat
  iso_now :: string
  elapsed :: nat
  new_id :: nat
  redis_connect :: settle
  redis_get :: settle
  redis_set :: settle
  redis_ping :: settle
  redis_quit :: settle
  mongo_connect :: settle
  insertOne :: settle
  countDocuments :: settle
  mongo_ping :: settle
  mongo_close :: settle
  others :: "(nat \<times> json) list \<Rightarrow> (nat \<times> json) list"

definition emit :: "event \<Rightarrow> app_state \<Rightarrow> app_state" where
  "emit ev st = st\<lparr>trace := trace st @ [ev]\<rparr>"

text \<open>
  A command given to the Redis client. A closed client rejects it; an open client
  without a connection keeps it in its queue, so the awaited call stays pending; a
  ready client sends it, and the outcome is the server's. \<open>awaited st env\<close> are the
  outcomes of the awaited calls in state \<open>st\<close> when \<open>env\<close> holds what the Redis server
  would answer.
\<close>

definition redis_call :: "redis_client \<Rightarrow> settle \<Rightarrow> settle" where
  "redis_call c reply =
     (case c of
        Closed \<Rightarrow> Rejects (Error ''The client is closed'')
      | Offline \<Rightarrow> Pends
      | Ready \<Rightarrow> reply)"

definition awaited :: "app_state \<Rightarrow> env \<Rightarrow> env" where
  "awaited st env =
     env\<lparr>redis_get := redis_call (redisClient st) (redis_get env),
         redis_set := redis_call (redisClient st) (redis_set env),
         redis_ping := redis_call (redisClient st) (redis_ping env),
         redis_quit := redis_call (redisClient st) (redis_quit env)\<rparr>"

text \<open>
  The service registers no listener for the \<^verbatim>\<open>error\<close> event of the Redis client.
  When a connection that was made is lost, the client emits the event, and an
  \<^verbatim>\<open>error\<close> event without a listener is thrown as an exception that nothing catches.
\<close>

definition redis_connection_lost :: "js_error \<Rightarrow> app_state \<Rightarrow> app_state" where
  "redis_connection_lost e st =
     (if process st = Running \<and> redisClient st = Ready
      then st\<lparr>redisClient := Offline, process := Uncaught e\<rparr>
      else st)"

section \<open>The metrics library\<close>

text \<open>
  When a response has finished, the middleware calls two operations of the metrics
  library: \<^verbatim>\<open>inc(labels)\<close> of the counter, and the function that \<^verbatim>\<open>startTimer()\<close>
  returned at the start of the request, which observes the elapsed time under the
  labels it is given. Either may throw. A library is any pair of such operations;
  \<open>prom_client\<close> is the one the service is built on: \<^verbatim>\<open>inc\<close> adds one to the
  labelled count, the timer adds the elapsed time to the labelled observations (kept
  here as the list of observed values), and neither throws for the label names the
  service declares. (\<^verbatim>\<open>startTimer()\<close> itself is taken to return, and the default
  metrics of \<^verbatim>\<open>collectDefaultMetrics()\<close> are left out.)
\<close>

record metrics_library =
  counter_inc :: "labels \<Rightarrow> registry \<Rightarrow> js_error + registry"
  timer_end :: "labels \<Rightarrow> nat \<Rightarrow> registry \<Rightarrow> js_error + registry"

definition prom_inc :: "labels \<Rightarrow> registry \<Rightarrow> registry" where
  "prom_inc l r = r\<lparr>httpRequestCount := (httpRequestCount r)(l := httpRequestCount r l + 1)\<rparr>"

definition prom_observe :: "labels \<Rightarrow> nat \<Rightarrow> registry \<Rightarrow> registry" where
  "prom_observe l d r =
     r\<lparr>httpRequestDurationMicroseconds :=
         (httpRequestDurationMicroseconds r)(l := httpRequestDurationMicroseconds r l @ [d])\<rparr>"

definition prom_client :: metrics_library where
  "prom_client = \<lparr>counter_inc = (\<lambda>l r. Inr (prom_inc l r)),
                   timer_end = (\<lambda>l d r. Inr (prom_observe l d r))\<rparr>"

section \<open>Route handlers\<close>

subsection \<open>GET /redis-test\<close>

text \<open>
  \<^verbatim>\<open>await redisClient.get(key) || 0\<close>: the client gives \<^verbatim>\<open>null\<close> for an absent key
  and the stored string otherwise; \<^verbatim>\<open>null\<close> and the empty string are falsy, so both
  give the number 0. \<^verbatim>\<open>parseInt\<close> converts its argument to a string first.
\<close>

definition or_zero :: "string option \<Rightarrow> string + jsnum" where
  "or_zero v = (case v of None \<Rightarrow> Inr (Num 0) | Some s \<Rightarrow> if s = [] then Inr (Num 0) else Inl s)"

definition parseInt_of :: "string + jsnum \<Rightarrow> jsnum" where
  "parseInt_of v = (case v of Inl s \<Rightarrow> parseInt s | Inr n \<Rightarrow> parseInt (number_to_string n))"

definition redis_failed :: "js_error \<Rightarrow> response" where
  "redis_failed e =
     res_json 500 (JObject [(''error'', JString ''Redis connection failed''),
                            (''details'', JString (message e))])"

text \<open>
  The handler. The client turns the number given to \<^verbatim>\<open>set\<close> into its string. A
  rejected call leaves the stored keys as they were.
\<close>

definition redis_test :: "env \<Rightarrow> app_state \<Rightarrow> response option \<times> app_state" where
  "redis_test env st =
     (let key = ''visit_count'';
          st1 = emit (Call ''redisClient.get'') st
      in case redis_get env of
           Pends \<Rightarrow> (None, st1)
         | Rejects e \<Rightarrow> (Some (redis_failed e), st1)
         | Resolves \<Rightarrow>
             (let currentCount = or_zero (redis_keys st1 key);
                  newCount = js_add (parseInt_of currentCount) (Num 1);
                  st2 = emit (Call ''redisClient.set'') st1
              in case redis_set env of
                   Pends \<Rightarrow> (None, st2)
                 | Rejects e \<Rightarrow> (Some (redis_failed e), st2)
                 | Resolves \<Rightarrow>
                     (Some (res_json 200 (JObject [(''message'', JString ''Redis test successful''),
                                                   (''visit_count'', JNumber newCount),
                                                   (''timestamp'', JString (iso_now env))])),
                      st2\<lparr>redis_keys := (redis_keys st2)(key \<mapsto> number_to_string newCount)\<rparr>)))"

subsection \<open>GET /mongo-test\<close>

definition mongo_failed :: "js_error \<Rightarrow> response" where
  "mongo_failed e =
     res_json 500 (JObject [(''error'', JString ''MongoDB connection failed''),
                            (''details'', JString (message e))])"

definition visit :: "env \<Rightarrow> request \<Rightarrow> json" where
  "visit env req =
     JObject [(''timestamp'', JDate (date_now env)),
              (''ip'', JString (req_ip req)),
              (''userAgent'', (case user_agent req of None \<Rightarrow> JUndefined | Some u \<Rightarrow> JString u))]"

text \<open>
  With \<^verbatim>\<open>db\<close> never assigned, \<^verbatim>\<open>db.collection\<close> throws a TypeError inside the
  \<^verbatim>\<open>try\<close>. The handler awaits \<^verbatim>\<open>insertOne\<close> and then \<^verbatim>\<open>countDocuments\<close>: the
  collection it counts is the one the other clients have left after its insert
  (\<open>others\<close>). \<^verbatim>\<open>countDocuments\<close> gives the number of documents as a JavaScript
  number.
\<close>

definition mongo_test :: "env \<Rightarrow> request \<Rightarrow> app_state \<Rightarrow> response option \<times> app_state" where
  "mongo_test env req st =
     (if \<not> db st then
        (Some (mongo_failed (Error ''Cannot read properties of undefined (reading 'collection')'')), st)
      else
        (let st1 = emit (Call ''collection.insertOne'') st
         in case insertOne env of
              Pends \<Rightarrow> (None, st1)
            | Rejects e \<Rightarrow> (Some (mongo_failed e), st1)
            | Resolves \<Rightarrow>
                (let st2 = st1\<lparr>visits := others env (visits st1 @ [(new_id env, bson (visit env req))])\<rparr>;
                     st3 = emit (Call ''collection.countDocuments'') st2
                 in case countDocuments env of
                      Pends \<Rightarrow> (None, st3)
                    | Rejects e \<Rightarrow> (Some (mongo_failed e), st3)
                    | Resolves \<Rightarrow>
                        (let totalVisits = to_number (int (length (visits st3)))
                         in (Some (res_json 200
                                     (JObject [(''message'', JString ''MongoDB test successful''),
                                               (''insertedId'', JObjectId (new_id env)),
                                               (''total_visits'', JNumber totalVisits),
                                               (''timestamp'', JString (iso_now env))])),
                             st3)))))"

subsection \<open>GET /health\<close>

record health_report =
  status :: string
  timestamp :: string
  services :: "(string \<times> string) list"

text \<open>
  The two branches of one \<^verbatim>\<open>try\<close>/\<^verbatim>\<open>catch\<close> of the handler: the probe returned,
  or it threw.
\<close>

definition probe_ok :: "string \<Rightarrow> health_report \<Rightarrow> health_report" where
  "probe_ok name health = health\<lparr>services := services health @ [(name, ''connected'')]\<rparr>"

definition probe_failed :: "string \<Rightarrow> health_report \<Rightarrow> health_report" where
  "probe_failed name health =
     health\<lparr>services := services health @ [(name, ''disconnected'')], status := ''DEGRADED''\<rparr>"

definition health_json :: "health_report \<Rightarrow> json" where
  "health_json health =
     JObject [(''status'', JString (status health)),
              (''timestamp'', JString (timestamp health)),
              (''services'', JObject (map (\<lambda>(k, v). (k, JString v)) (services health)))]"

definition health_response :: "health_report \<Rightarrow> response" where
  "health_response health = res_json 200 (health_json health)"

text \<open>
  The second \<^verbatim>\<open>try\<close> and the answer. With \<^verbatim>\<open>mongoClient\<close> never assigned,
  \<^verbatim>\<open>mongoClient.db()\<close> throws a TypeError inside the \<^verbatim>\<open>try\<close>, and no ping is sent.
\<close>

definition check_mongo :: "env \<Rightarrow> app_state \<Rightarrow> health_report \<Rightarrow> response option \<times> app_state" where
  "check_mongo env st health =
     (if mongoClient st then
        (let st1 = emit (Call ''admin.ping'') st
         in case mongo_ping env of
              Pends \<Rightarrow> (None, st1)
            | Rejects error \<Rightarrow> (Some (health_response (probe_failed ''mongodb'' health)), st1)
            | Resolves \<Rightarrow> (Some (health_response (probe_ok ''mongodb'' health)), st1))
      else (Some (health_response (probe_failed ''mongodb'' health)), st))"

definition health_check :: "env \<Rightarrow> app_state \<Rightarrow> response option \<times> app_state" where
  "health_check env st =
     (let health = \<lparr>status = ''OK'', timestamp = iso_now env, services = []\<rparr>;
          st1 = emit (Call ''redisClient.ping'') st
      in case redis_ping env of
           Pends \<Rightarrow> (None, st1)
         | Rejects error \<Rightarrow> check_mongo env st1 (probe_failed ''redis'' health)
         | Resolves \<Rightarrow> check_mongo env st1 (probe_ok ''redis'' health))"

subsection \<open>The other routes\<close>

definition root_page :: "app_state \<Rightarrow> response option \<times> app_state" where
  "root_page st =
     (Some \<lparr>statusCode = 200, payload = Send ''Hello World! Redis and MongoDB are connected.''\<rparr>, st)"

definition metrics :: "app_state \<Rightarrow> response option \<times> app_state" where
  "metrics st = (Some \<lparr>statusCode = 200, payload = Exposition (metrics_registry st)\<rparr>, st)"

text \<open>\<^verbatim>\<open>/crash\<close> sends its response, writes to the console and exits with code 1.\<close>

definition process_exit :: "int \<Rightarrow> app_state \<Rightarrow> app_state" where
  "process_exit code st = (emit (Exit code) st)\<lparr>process := Exited code\<rparr>"

definition crash :: "app_state \<Rightarrow> response option \<times> app_state" where
  "crash st =
     (Some \<lparr>statusCode = 200, payload = Send ''Service is crashing...''\<rparr>,
      process_exit 1 (emit (ConsoleErr ''Service is crashing...'' None) st))"

section \<open>Routing and the metrics middleware\<close>

text \<open>
  The routes, in the order the application registers them. Express matches a route
  path without regard to the case of letters and allows one trailing slash; a
  \<^verbatim>\<open>get\<close> route also serves HEAD, and an OPTIONS request to a matched path is answered
  with the allowed methods. A request no route serves gets the 404 page. The handlers
  of \<^verbatim>\<open>/redis-test\<close> and \<^verbatim>\<open>/health\<close> run with the outcomes their Redis calls have
  in the state the client is in.
\<close>

datatype route = MetricsRoute | RootRoute | RedisTestRoute | MongoTestRoute | HealthRoute | CrashRoute

fun route_path :: "route \<Rightarrow> string" where
  "route_path MetricsRoute = ''/metrics''"
| "route_path RootRoute = ''/''"
| "route_path RedisTestRoute = ''/redis-test''"
| "route_path MongoTestRoute = ''/mongo-test''"
| "route_path HealthRoute = ''/health''"
| "route_path CrashRoute = ''/crash''"

definition routes :: "route list" where
  "routes = [MetricsRoute, RootRoute, RedisTestRoute, MongoTestRoute, HealthRoute, CrashRoute]"

definition lower :: "char \<Rightarrow> char" where
  "lower c = (if 65 \<le> (of_char c :: nat) \<and> (of_char c :: nat) \<le> 90 then char_of (of_char c + 32 :: nat) else c)"

definition layer_match :: "string \<Rightarrow> string \<Rightarrow> bool" where
  "layer_match pat p =
     (let p' = map lower p; pat' = map lower pat
      in p' = pat' \<or> (if last pat' = CHR ''/'' then p' = butlast pat' else p' = pat' @ ''/''))"

definition match_route :: "string \<Rightarrow> route option" where
  "match_route p = find (\<lambda>r. layer_match (route_path r) p) routes"

fun handle_route :: "route \<Rightarrow> env \<Rightarrow> request \<Rightarrow> app_state \<Rightarrow> response option \<times> app_state" where
  "handle_route MetricsRoute env req st = metrics st"
| "handle_route RootRoute env req st = root_page st"
| "handle_route RedisTestRoute env req st = redis_test (awaited st env) st"
| "handle_route MongoTestRoute env req st = mongo_test env req st"
| "handle_route HealthRoute env req st = health_check (awaited st env) st"
| "handle_route CrashRoute env req st = crash st"

definition not_found :: "app_state \<Rightarrow> response option \<times> app_state" where
  "not_found st = (Some \<lparr>statusCode = 404, payload = NotFoundPage\<rparr>, st)"

text \<open>
  The router takes the pathname of the request first. Without one it runs nothing of
  what the application registered, neither the middleware nor a route, and the request
  gets the 404 page.
\<close>

definition router :: "env \<Rightarrow> request \<Rightarrow> app_state \<Rightarrow> response option \<times> app_state" where
  "router env req st =
     (case req_path req of
        None \<Rightarrow> not_found st
      | Some path \<Rightarrow>
          (if req_method req = ''GET'' \<or> req_method req = ''HEAD'' then
             (case match_route path of
                Some r \<Rightarrow> handle_route r env req st
              | None \<Rightarrow> not_found st)
           else if req_method req = ''OPTIONS'' \<and> match_route path \<noteq> None then
             (Some \<lparr>statusCode = 200, payload = Send ''GET,HEAD''\<rparr>, st)
           else not_found st))"

text \<open>
  The middleware starts the timer, registers a listener for the response's
  \<^verbatim>\<open>finish\<close> event and calls \<^verbatim>\<open>next()\<close>. The listener runs once the response has
  been sent, if the process is still there to run it; it has no \<^verbatim>\<open>try\<close>, so what a
  metrics call throws leaves the listener as an uncaught exception. The \<^verbatim>\<open>route\<close>
  label is \<^verbatim>\<open>req.path\<close> (the middleware only ever runs for a request that has a
  pathname).
\<close>

definition finish_labels :: "request \<Rightarrow> response \<Rightarrow> labels" where
  "finish_labels req res =
     \<lparr>l_method = req_method req,
      l_route = (case req_path req of Some path \<Rightarrow> path | None \<Rightarrow> []),
      l_status_code = statusCode res\<rparr>"

definition on_finish :: "metrics_library \<Rightarrow> env \<Rightarrow> request \<Rightarrow> response \<Rightarrow> app_state \<Rightarrow> app_state" where
  "on_finish lib env req res st =
     (case counter_inc lib (finish_labels req res) (metrics_registry st) of
        Inl e \<Rightarrow> st\<lparr>process := Uncaught e\<rparr>
      | Inr r1 \<Rightarrow>
          (case timer_end lib (finish_labels req res) (elapsed env) r1 of
             Inl e \<Rightarrow> st\<lparr>metrics_registry := r1, process := Uncaught e\<rparr>
           | Inr r2 \<Rightarrow> st\<lparr>metrics_registry := r2\<rparr>))"

text \<open>
  One request through the application. A request whose handler waits on a call that
  stays pending is not answered and stays in flight.
\<close>

definition app :: "metrics_library \<Rightarrow> env \<Rightarrow> request \<Rightarrow> app_state \<Rightarrow> response option \<times> app_state" where
  "app lib env req st =
     (if process st = Running \<and> listening st then
        (case router env req st of
           (None, st1) \<Rightarrow> (None, st1\<lparr>inflight := inflight st1 + 1\<rparr>)
         | (Some res, st1) \<Rightarrow>
             (Some res,
              if process st1 = Running \<and> req_path req \<noteq> None
              then on_finish lib env req res st1 else st1))
      else (None, st))"

section \<open>Start and shutdown\<close>

text \<open>
  The process at start, given what Redis and the collection hold: nothing connected
  yet (the Redis client closed), an empty registry, the server listening.
\<close>

definition boot :: "(string \<rightharpoonup> string) \<Rightarrow> (nat \<times> json) list \<Rightarrow> app_state" where
  "boot keys docs =
     \<lparr>redis_keys = keys, visits = docs, redisClient = Closed, mongoClient = False, db = False,
      metrics_registry = \<lparr>httpRequestCount = (\<lambda>l. 0), httpRequestDurationMicroseconds = (\<lambda>l. [])\<rparr>,
      listening = True, inflight = 0, process = Running, trace = []\<rparr>"

text \<open>
  \<^verbatim>\<open>connectDatabases()\<close>, called once at start. \<^verbatim>\<open>redisClient.connect()\<close> opens the
  client; the client is ready when the call resolves, and stays open without a
  connection when the call is rejected or pending. The rest of the \<^verbatim>\<open>try\<close> block runs
  only after the Redis connection is made.
\<close>

definition connectDatabases :: "env \<Rightarrow> app_state \<Rightarrow> app_state" where
  "connectDatabases env st =
     (let st1 = (emit (Call ''redisClient.connect'') st)\<lparr>redisClient := Offline\<rparr>
      in case redis_connect env of
           Pends \<Rightarrow> st1
         | Rejects e \<Rightarrow> emit (ConsoleErr ''Database connection error:'' (Some e)) st1
         | Resolves \<Rightarrow>
             (let st2 = emit (Console ''Connected to Redis'') (st1\<lparr>redisClient := Ready\<rparr>);
                  st3 = (emit (Call ''mongoClient.connect'') st2)\<lparr>mongoClient := True\<rparr>
              in case mongo_connect env of
                   Pends \<Rightarrow> st3
                 | Rejects e \<Rightarrow> emit (ConsoleErr ''Database connection error:'' (Some e)) st3
                 | Resolves \<Rightarrow> emit (Console ''Connected to MongoDB'') (st3\<lparr>db := True\<rparr>)))"

text \<open>
  The SIGTERM handler. \<^verbatim>\<open>server.close(callback)\<close> stops the listener and returns at
  once; its callback runs when no connection is open any more, which is at the
  handler's first \<^verbatim>\<open>await\<close> when no request is in flight. The handler then awaits
  \<^verbatim>\<open>redisClient.quit()\<close> (a command of the Redis client like the others), awaits
  \<^verbatim>\<open>mongoClient.close()\<close> if the client was created, and calls \<^verbatim>\<open>process.exit(0)\<close>.
\<close>

definition close_mongo_and_exit :: "env \<Rightarrow> app_state \<Rightarrow> app_state" where
  "close_mongo_and_exit env st =
     (if mongoClient st then
        (let st1 = emit (Call ''mongoClient.close'') st
         in case mongo_close env of
              Pends \<Rightarrow> st1
            | Rejects e \<Rightarrow>
                process_exit 0 (emit (ConsoleErr ''Error closing MongoDB connection:'' (Some e)) st1)
            | Resolves \<Rightarrow> process_exit 0 (emit (Console ''MongoDB connection closed'') st1))
      else process_exit 0 st)"

definition sigterm :: "env \<Rightarrow> app_state \<Rightarrow> app_state" where
  "sigterm env st =
     (if process st = Running then
        (let st1 = emit (Console ''SIGTERM received, shutting down gracefully'') st;
             st2 = (emit (Call ''server.close'') st1)\<lparr>listening := False\<rparr>;
             st3 = emit (Call ''redisClient.quit'') st2;
             st4 = (if inflight st3 = 0 then emit (Console ''HTTP server closed'') st3 else st3)
         in case redis_quit (awaited st env) of
              Pends \<Rightarrow> st4
            | Rejects e \<Rightarrow>
                close_mongo_and_exit env
                  (emit (ConsoleErr ''Error closing Redis connection:'' (Some e)) st4)
            | Resolves \<Rightarrow> close_mongo_and_exit env (emit (Console ''Redis connection closed'') st4))
      else st)"

section \<open>Observations and sample inputs\<close>

text \<open>A field of a JSON body, and a field of its \<^verbatim>\<open>services\<close> object.\<close>

definition body_field :: "string \<Rightarrow> response \<Rightarrow> json option" where
  "body_field k res = (case payload res of Json j \<Rightarrow> field k j | _ \<Rightarrow> None)"

definition service_field :: "string \<Rightarrow> response \<Rightarrow> json option" where
  "service_field k res = (case body_field ''services'' res of Some sv \<Rightarrow> field k sv | None \<Rightarrow> None)"

text \<open>Calls to \<^verbatim>\<open>/redis-test\<close> one after the other, each with its own environment.\<close>

fun redis_test_calls :: "env list \<Rightarrow> app_state \<Rightarrow> response option list \<times> app_state" where
  "redis_test_calls [] st = ([], st)"
| "redis_test_calls (env # envs) st =
     (let (r, st1) = redis_test env st; (rs, st2) = redis_test_calls envs st1 in (r # rs, st2))"

text \<open>What a caller sees of one such call: the status and the \<^verbatim>\<open>visit_count\<close>.\<close>

definition seen :: "response option \<Rightarrow> (nat \<times> json option) option" where
  "seen r = map_option (\<lambda>res. (statusCode res, body_field ''visit_count'' res)) r"

text \<open>
  An environment in which every call resolves and nobody else writes to the
  collection, and a GET request for a target that \<^verbatim>\<open>parseurl\<close> reads by itself.
\<close>

definition steady :: env where
  "steady =
     \<lparr>date_now = 0, iso_now = ''1970-01-01T00:00:00.000Z'', elapsed = 1000, new_id = 1,
      redis_connect = Resolves, redis_get = Resolves, redis_set = Resolves,
      redis_ping = Resolves, redis_quit = Resolves, mongo_connect = Resolves,
      insertOne = Resolves, countDocuments = Resolves, mongo_ping = Resolves,
      mongo_close = Resolves, others = (\<lambda>docs. docs)\<rparr>"

text \<open>
  Environments in which every Redis call, or every MongoDB call, is rejected, one in
  which the MongoDB insert stays pending, and one in which another client inserts a
  document between the handler's insert and its count.
\<close>

definition redis_down :: env where
  "redis_down =
     steady\<lparr>redis_connect := Rejects (Error ''connect ECONNREFUSED''),
            redis_get := Rejects (Error ''The client is closed''),
            redis_set := Rejects (Error ''The client is closed''),
            redis_ping := Rejects (Error ''The client is closed''),
            redis_quit := Rejects (Error ''The client is closed'')\<rparr>"

definition mongo_down :: env where
  "mongo_down =
     steady\<lparr>mongo_connect := Rejects (Error ''connect ECONNREFUSED''),
            insertOne := Rejects (Error ''Topology is closed''),
            countDocuments := Rejects (Error ''Topology is closed''),
            mongo_ping := Rejects (Error ''Topology is closed''),
            mongo_close := Rejects (Error ''Topology is closed'')\<rparr>"

definition mongo_slow :: env where
  "mongo_slow = steady\<lparr>insertOne := Pends\<rparr>"

text \<open>An environment in which the Redis server answers \<^verbatim>\<open>GET\<close> with an error.\<close>

definition redis_wrongtype :: env where
  "redis_wrongtype =
     steady\<lparr>redis_get := Rejects (Error ''WRONGTYPE Operation against a key holding the wrong kind of value'')\<rparr>"

definition mongo_shared :: env where
  "mongo_shared = steady\<lparr>others := (\<lambda>docs. docs @ [(2, JObject [(''by'', JString ''another client'')])])\<rparr>"

text \<open>Whether a call was rejected, and when a handler's dependency operation fails.\<close>

definition rejected :: "settle \<Rightarrow> bool" where
  "rejected x = (case x of Rejects e \<Rightarrow> True | _ \<Rightarrow> False)"

definition redis_op_fails :: "env \<Rightarrow> bool" where
  "redis_op_fails env =
     (rejected (redis_get env) \<or> (redis_get env = Resolves \<and> rejected (redis_set env)))"

definition mongo_op_fails :: "env \<Rightarrow> app_state \<Rightarrow> bool" where
  "mongo_op_fails env st =
     (if db st then
        rejected (insertOne env) \<or> (insertOne env = Resolves \<and> rejected (countDocuments env))
      else True)"

text \<open>A metrics library whose counter throws.\<close>

definition throwing_counter :: metrics_library where
  "throwing_counter = prom_client\<lparr>counter_inc := (\<lambda>l r. Inl (Error ''inc failed''))\<rparr>"

definition get_request :: "string \<Rightarrow> request" where
  "get_request url =
     \<lparr>req_method = ''GET'', req_url = url, req_ip = ''127.0.0.1'', user_agent = Some ''curl/8.0'',
      url_parse_pathname = None\<rparr>"

text \<open>
  Two requests that \<^verbatim>\<open>parseurl\<close> hands to \<^verbatim>\<open>url.parse\<close>: the target
  \<^verbatim>\<open>/health#frag\<close>, whose pathname is \<^verbatim>\<open>/health\<close>, and the absolute-form target
  \<^verbatim>\<open>foo://host\<close>, which has no pathname (\<^verbatim>\<open>null\<close>).
\<close>

definition fragment_request :: request where
  "fragment_request = (get_request ''/health#frag'')\<lparr>url_parse_pathname := Some ''/health''\<rparr>"

definition pathless_request :: request where
  "pathless_request = (get_request ''foo://host'')\<lparr>url_parse_pathname := None\<rparr>"

section \<open>Numbers and their digits\<close>

lemma digit_cases: "d < 10 \<Longrightarrow> d \<in> {0, 1, 2, 3, 4, 5, 6, 7, 8, 9 :: nat}"
  by auto

lemma digit_val_digit_char: "d < 10 \<Longrightarrow> digit_val 10 (digit_char d) = Some d"
  by (drule digit_cases) (auto simp: digit_val_def digit_char_def)

lemma is_digit_dec: "c \<in> set (dec n) \<Longrightarrow> is_digit 10 c"
proof (induction n rule: dec.induct)
  case (1 n)
  show ?case
  proof (cases "n < 10")
    case True
    with "1.prems" show ?thesis
      by (simp add: dec.simps [of n] is_digit_def digit_val_digit_char)
  next
    case False
    with "1.prems" "1.IH" show ?thesis
      by (auto simp: dec.simps [of n] is_digit_def digit_val_digit_char)
  qed
qed

lemma digits_value_snoc:
  "digits_value R (Z @ [c]) =
     digits_value R Z * R + (case digit_val R c of Some v \<Rightarrow> v | None \<Rightarrow> 0)"
  by (simp add: digits_value_def)

lemma digits_value_dec: "digits_value 10 (dec n) = n"
proof (induction n rule: dec.induct)
  case (1 n)
  show ?case
  proof (cases "n < 10")
    case True
    then show ?thesis
      by (simp add: dec.simps [of n] digits_value_def digit_val_digit_char)
  next
    case False
    with "1.IH" show ?thesis
      by (simp add: dec.simps [of n] digits_value_snoc digit_val_digit_char)
  qed
qed

lemma dec_not_Nil: "dec n \<noteq> []"
  by (subst dec.simps) simp

lemma hd_dec_digit: "is_digit 10 (hd (dec n))"
  using dec_not_Nil [of n] is_digit_dec [of "hd (dec n)" n] by simp

lemma is_digit_10_range:
  "is_digit 10 c \<Longrightarrow> 48 \<le> (of_char c :: nat) \<and> (of_char c :: nat) \<le> 57"
  by (auto simp: is_digit_def digit_val_def Let_def split: if_splits)

lemma ws_len_digit: "is_digit 10 c \<Longrightarrow> ws_len (c # cs) = 0"
  by (drule is_digit_10_range) (auto simp: ws_len_def white_space_def)

lemma strip_ws_dec: "strip_ws (dec n) = dec n"
proof -
  obtain c cs where s: "dec n = c # cs"
    using dec_not_Nil [of n] by (cases "dec n") auto
  then have "is_digit 10 c"
    using hd_dec_digit [of n] by simp
  then have "ws_len (dec n) = 0"
    by (simp add: s ws_len_digit)
  then show ?thesis
    by (subst strip_ws.simps) simp
qed

lemma not_in_dec: "\<not> is_digit 10 c \<Longrightarrow> c \<in> set (take k (dec n)) \<Longrightarrow> False"
  using is_digit_dec [of c n] by (auto dest: in_set_takeD)

lemma take_dec_not:
  "take 1 (dec n) \<noteq> ''-''" "take 1 (dec n) \<noteq> ''+''"
  "take 2 (dec n) \<noteq> ''0x''" "take 2 (dec n) \<noteq> ''0X''"
proof -
  have a: "\<not> is_digit 10 CHR ''-''" "\<not> is_digit 10 CHR ''+''"
    "\<not> is_digit 10 CHR ''x''" "\<not> is_digit 10 CHR ''X''"
    by (simp_all add: is_digit_def digit_val_def)
  show "take 1 (dec n) \<noteq> ''-''"
    using not_in_dec [OF a(1), of 1 n] by auto
  show "take 1 (dec n) \<noteq> ''+''"
    using not_in_dec [OF a(2), of 1 n] by auto
  show "take 2 (dec n) \<noteq> ''0x''"
    using not_in_dec [OF a(3), of 2 n] by auto
  show "take 2 (dec n) \<noteq> ''0X''"
    using not_in_dec [OF a(4), of 2 n] by auto
qed

lemma takeWhile_dec: "takeWhile (is_digit 10) (dec n) = dec n"
  by (simp add: takeWhile_eq_all_conv is_digit_dec)

text \<open>Reading back the digits of a natural number gives the number, as a double.\<close>

lemma parseInt_dec: "parseInt (dec n) = to_number (int n)"
proof -
  have "take (Suc 0) (dec n) \<noteq> ''-''" "take (Suc 0) (dec n) \<noteq> ''+''"
    using take_dec_not(1,2) [of n] by simp_all
  then show ?thesis
    by (simp add: parseInt_def Let_def strip_ws_dec take_dec_not takeWhile_dec dec_not_Nil
        digits_value_dec)
qed

lemma to_number_small: "\<bar>i\<bar> \<le> 2 ^ 53 \<Longrightarrow> to_number i = Num i"
  by (auto simp: to_number_def round53_def Let_def)

text \<open>\<open>2 ^ 53 + 1\<close> is halfway between two doubles and rounds to the even one.\<close>

lemma to_number_stuck: "to_number (2 ^ 53 + 1) = Num (2 ^ 53)"
  by (simp add: to_number_def round53_def Let_def compute_floorlog)

section \<open>GET /redis-test: the visit counter\<close>

lemma steady_ok: "redis_get steady = Resolves" "redis_set steady = Resolves"
  by (simp_all add: steady_def)

lemma nat_to_string_small: "v \<le> 2 ^ 53 \<Longrightarrow> nat_to_string v = dec v"
  by (simp add: nat_to_string_def)

lemma dec_1: "dec 1 = ''1''"
  by (simp add: dec.simps digit_char_def)

lemma parseInt_abc: "parseInt ''abc'' = NaN"
  by (simp add: parseInt_def strip_ws.simps ws_len_def white_space_def is_digit_def
      digit_val_def Let_def)

lemma parseInt_empty: "parseInt [] = NaN"
  by (simp add: parseInt_def strip_ws.simps ws_len_def white_space_def Let_def)

text \<open>
  What the handler reads when the key is absent (\<open>n = 0\<close>) or holds the digits of
  \<open>n\<close>.
\<close>

lemma parse_count:
  "n \<le> 2 ^ 53 \<Longrightarrow>
   parseInt_of (or_zero (if n = 0 then None else Some (dec n))) = Num (int n)"
  by (auto simp: or_zero_def parseInt_of_def dec_not_Nil parseInt_dec to_number_small
      nat_to_string_small)

text \<open>One call below \<open>2 ^ 53\<close>: it reads \<open>n\<close>, answers \<open>n + 1\<close> and stores its digits.\<close>

lemma redis_test_step:
  assumes ok: "redis_get env = Resolves" "redis_set env = Resolves"
    and key: "redis_keys st ''visit_count'' = (if n = 0 then None else Some (dec n))"
    and n: "n < 2 ^ 53"
  shows "\<exists>res st'. redis_test env st = (Some res, st')
           \<and> seen (Some res) = Some (200, Some (JNumber (Num (int n + 1))))
           \<and> redis_keys st' ''visit_count'' = Some (dec (Suc n))"
proof -
  from n have p: "parseInt_of (or_zero (redis_keys st ''visit_count'')) = Num (int n)"
    using parse_count [of n] key by simp
  from n have t: "to_number (int n + 1) = Num (int n + 1)"
    by (simp add: to_number_small)
  from n have s: "nat_to_string (Suc n) = dec (Suc n)"
    by (simp add: nat_to_string_small)
  have i: "nat (int n + 1) = Suc n"
    by simp
  show ?thesis
    by (simp add: redis_test_def Let_def ok emit_def p t s i seen_def body_field_def res_json_def)
qed

text \<open>One call at \<open>2 ^ 53\<close>: adding one rounds back to \<open>2 ^ 53\<close>.\<close>

lemma redis_test_stuck:
  assumes ok: "redis_get env = Resolves" "redis_set env = Resolves"
    and key: "redis_keys st ''visit_count'' = Some (dec (2 ^ 53))"
  shows "\<exists>res st'. redis_test env st = (Some res, st')
           \<and> seen (Some res) = Some (200, Some (JNumber (Num (2 ^ 53))))"
proof -
  have p: "parseInt_of (or_zero (redis_keys st ''visit_count'')) = Num (2 ^ 53)"
    using parse_count [of "2 ^ 53"] key by simp
  have t: "to_number (2 ^ 53 + 1) = Num (2 ^ 53)"
    by (rule to_number_stuck)
  show ?thesis
    using t by (simp add: redis_test_def Let_def ok emit_def p seen_def body_field_def res_json_def)
qed

lemma redis_test_calls_append:
  "redis_test_calls (xs @ ys) st =
     (let (rs, st1) = redis_test_calls xs st; (rs', st2) = redis_test_calls ys st1
      in (rs @ rs', st2))"
  by (induction xs arbitrary: st) (auto split: prod.splits)

text \<open>Calls in a row, starting from a key that holds \<open>n\<close>, while the count fits.\<close>

lemma redis_test_calls_counted:
  assumes "list_all (\<lambda>e. redis_get e = Resolves \<and> redis_set e = Resolves) envs"
    and "redis_keys st ''visit_count'' = (if n = 0 then None else Some (dec n))"
    and "n + length envs \<le> 2 ^ 53"
  shows "map seen (fst (redis_test_calls envs st))
           = map (\<lambda>k. Some (200, Some (JNumber (Num (int k))))) [Suc n..<Suc (n + length envs)]
         \<and> redis_keys (snd (redis_test_calls envs st)) ''visit_count''
           = (if n + length envs = 0 then None else Some (dec (n + length envs)))"
  using assms
proof (induction envs arbitrary: n st)
  case Nil
  then show ?case by simp
next
  case (Cons e es)
  from Cons.prems have ok: "redis_get e = Resolves" "redis_set e = Resolves"
    and oks: "list_all (\<lambda>e. redis_get e = Resolves \<and> redis_set e = Resolves) es"
    and n: "n < 2 ^ 53" and m: "Suc n + length es \<le> 2 ^ 53"
    by simp_all
  from redis_test_step [OF ok Cons.prems(2) n]
  obtain res st' where r: "redis_test e st = (Some res, st')"
    and s: "seen (Some res) = Some (200, Some (JNumber (Num (int n + 1))))"
    and k: "redis_keys st' ''visit_count'' = Some (dec (Suc n))"
    by blast
  from k have k': "redis_keys st' ''visit_count'' = (if Suc n = 0 then None else Some (dec (Suc n)))"
    by simp
  note ih = Cons.IH [OF oks k' m]
  let ?f = "\<lambda>k. Some (200 :: nat, Some (JNumber (Num (int k))))"
  have j: "Suc (n + length (e # es)) = Suc (Suc n + length es)"
    by simp
  have "[Suc n..<Suc (Suc n + length es)] = Suc n # [Suc (Suc n)..<Suc (Suc n + length es)]"
    by (rule upt_conv_Cons) simp
  then have u: "[Suc n..<Suc (n + length (e # es))] = Suc n # [Suc (Suc n)..<Suc (Suc n + length es)]"
    by (simp only: j)
  have calls: "redis_test_calls (e # es) st
                = (Some res # fst (redis_test_calls es st'), snd (redis_test_calls es st'))"
    by (simp add: r split_beta)
  have "map seen (fst (redis_test_calls (e # es) st))
          = seen (Some res) # map seen (fst (redis_test_calls es st'))"
    unfolding calls by simp
  also have "\<dots> = ?f (Suc n) # map ?f [Suc (Suc n)..<Suc (Suc n + length es)]"
    using ih s by simp
  also have "\<dots> = map ?f [Suc n..<Suc (n + length (e # es))]"
    by (simp only: u list.map)
  finally have first: "map seen (fst (redis_test_calls (e # es) st))
                         = map ?f [Suc n..<Suc (n + length (e # es))]" .
  have second: "redis_keys (snd (redis_test_calls (e # es) st)) ''visit_count''
                  = (if n + length (e # es) = 0 then None else Some (dec (n + length (e # es))))"
    unfolding calls using ih by simp
  from first second show ?case by blast
qed

text \<open>
  C4, as amended. Starting with the key \<^verbatim>\<open>visit_count\<close> absent, \<open>N\<close> calls to
  \<^verbatim>\<open>/redis-test\<close> one after the other, each with its \<^verbatim>\<open>get\<close> and \<^verbatim>\<open>set\<close>
  resolving, answer 200 with \<^verbatim>\<open>visit_count\<close> 1, 2, ..., \<open>N\<close> in this order, for every
  \<open>N\<close> up to \<open>2 ^ 53\<close>; the key then holds the digits of \<open>N\<close>. (Each call reads the
  number at the key, 0 if the key is absent, adds one and writes the result back:
  \<open>redis_test_step\<close>.)
\<close>

theorem redis_test_counts_from_clean:
  assumes "list_all (\<lambda>e. redis_get e = Resolves \<and> redis_set e = Resolves) envs"
    and "redis_keys st ''visit_count'' = None"
    and "length envs \<le> 2 ^ 53"
  shows "map seen (fst (redis_test_calls envs st))
           = map (\<lambda>k. Some (200, Some (JNumber (Num (int k))))) [1..<Suc (length envs)]
         \<and> redis_keys (snd (redis_test_calls envs st)) ''visit_count''
           = (if envs = [] then None else Some (dec (length envs)))"
  using redis_test_calls_counted [of envs st 0] assms by simp

theorem redis_test_counts_from_clean_witness:
  "list_all (\<lambda>e. redis_get e = Resolves \<and> redis_set e = Resolves) [steady, steady, steady]
   \<and> redis_keys (boot Map.empty []) ''visit_count'' = None
   \<and> length [steady, steady, steady] \<le> 2 ^ 53
   \<and> map seen (fst (redis_test_calls [steady, steady, steady] (boot Map.empty [])))
       = [Some (200, Some (JNumber (Num 1))), Some (200, Some (JNumber (Num 2))),
          Some (200, Some (JNumber (Num 3)))]"
proof -
  have a: "list_all (\<lambda>e. redis_get e = Resolves \<and> redis_set e = Resolves) [steady, steady, steady]"
    by (simp add: steady_ok)
  have b: "redis_keys (boot Map.empty []) ''visit_count'' = None"
    by (simp add: boot_def)
  have c: "length [steady, steady, steady] \<le> 2 ^ 53"
    by simp
  have u: "[1..<Suc (length [steady, steady, steady])] = [1, 2, 3]"
    by (simp add: upt_rec)
  from redis_test_counts_from_clean [OF a b c] a b c show ?thesis
    unfolding u by simp
qed

text \<open>
  C4 as stated fails for \<open>N = 2 ^ 53 + 1\<close>: the counter is a JavaScript number, and
  at \<open>2 ^ 53 = 9007199254740992\<close> adding one gives \<open>2 ^ 53\<close> again, so the last of
  \<open>2 ^ 53 + 1\<close> calls from a clean state answers \<open>2 ^ 53\<close> and not \<open>2 ^ 53 + 1\<close>.
\<close>

theorem redis_test_count_saturates_counterexample:
  "seen (last (fst (redis_test_calls (replicate (2 ^ 53 + 1) steady) (boot Map.empty []))))
     = Some (200, Some (JNumber (Num (2 ^ 53))))
   \<and> Num (2 ^ 53) \<noteq> Num (2 ^ 53 + 1)"
proof -
  let ?st = "boot Map.empty []"
  let ?xs = "replicate (2 ^ 53) steady"
  have all: "list_all (\<lambda>e. redis_get e = Resolves \<and> redis_set e = Resolves) ?xs"
    by (simp add: list_all_iff steady_ok)
  have key0: "redis_keys ?st ''visit_count'' = (if (0::nat) = 0 then None else Some (dec 0))"
    by (simp add: boot_def)
  have len: "0 + length ?xs \<le> 2 ^ 53"
    by simp
  from redis_test_calls_counted [OF all key0 len]
  have key: "redis_keys (snd (redis_test_calls ?xs ?st)) ''visit_count'' = Some (dec (2 ^ 53))"
    by simp
  from redis_test_stuck [OF steady_ok key]
  obtain res st' where r: "redis_test steady (snd (redis_test_calls ?xs ?st)) = (Some res, st')"
    and s: "seen (Some res) = Some (200, Some (JNumber (Num (2 ^ 53))))"
    by blast
  have "replicate (2 ^ 53 + 1) steady = ?xs @ replicate 1 steady"
    by (rule replicate_add)
  moreover have "replicate 1 steady = [steady]"
    by simp
  ultimately have split: "replicate (2 ^ 53 + 1) steady = ?xs @ [steady]"
    by (simp only:)
  have "seen (last (fst (redis_test_calls (replicate (2 ^ 53 + 1) steady) ?st)))
          = Some (200, Some (JNumber (Num (2 ^ 53))))"
    unfolding split redis_test_calls_append
    using r s by (simp add: split_beta)
  then show ?thesis
    by simp
qed

section \<open>Sample states and routing facts\<close>

lemma steady_fields:
  "insertOne steady = Resolves" "countDocuments steady = Resolves" "new_id steady = 1"
  "iso_now steady = ''1970-01-01T00:00:00.000Z''" "date_now steady = 0" "elapsed steady = 1000"
  "redis_ping steady = Resolves" "mongo_ping steady = Resolves"
  "redis_quit steady = Resolves" "mongo_close steady = Resolves"
  "others steady docs = docs"
  by (simp_all add: steady_def)

lemma down_fields:
  "redis_get redis_down = Rejects (Error ''The client is closed'')"
  "redis_connect redis_down = Rejects (Error ''connect ECONNREFUSED'')"
  "redis_ping redis_down = Rejects (Error ''The client is closed'')"
  "mongo_ping redis_down = Resolves"
  "iso_now redis_down = ''1970-01-01T00:00:00.000Z''"
  by (simp_all add: redis_down_def steady_def)

text \<open>With a ready client the outcomes are the server's; a closed client rejects.\<close>

lemma awaited_ready: "redisClient st = Ready \<Longrightarrow> awaited st env = env"
  by (simp add: awaited_def redis_call_def)

lemma awaited_closed:
  assumes "redisClient st = Closed"
  shows "redis_get (awaited st env) = Rejects (Error ''The client is closed'')"
    and "redis_ping (awaited st env) = Rejects (Error ''The client is closed'')"
    and "redis_quit (awaited st env) = Rejects (Error ''The client is closed'')"
  using assms by (simp_all add: awaited_def redis_call_def)

lemma awaited_offline:
  assumes "redisClient st = Offline"
  shows "redis_get (awaited st env) = Pends" and "redis_ping (awaited st env) = Pends"
    and "redis_quit (awaited st env) = Pends"
  using assms by (simp_all add: awaited_def redis_call_def)

text \<open>The state once both databases are connected.\<close>

lemma connected_fields:
  "redisClient (connectDatabases steady (boot keys docs)) = Ready"
  "mongoClient (connectDatabases steady (boot keys docs))"
  "db (connectDatabases steady (boot keys docs))"
  "process (connectDatabases steady (boot keys docs)) = Running"
  "listening (connectDatabases steady (boot keys docs))"
  "redis_keys (connectDatabases steady (boot keys docs)) = keys"
  "visits (connectDatabases steady (boot keys docs)) = docs"
  "inflight (connectDatabases steady (boot keys docs)) = 0"
  "httpRequestCount (metrics_registry (connectDatabases steady (boot keys docs))) = (\<lambda>l. 0)"
  "httpRequestDurationMicroseconds (metrics_registry (connectDatabases steady (boot keys docs)))
     = (\<lambda>l. [])"
  by (simp_all add: connectDatabases_def steady_def boot_def emit_def Let_def)

text \<open>The state after a start at which the Redis connection was refused.\<close>

lemma refused_fields:
  assumes "redis_connect env0 \<noteq> Resolves"
  shows "redisClient (connectDatabases env0 (boot keys docs)) = Offline"
    and "\<not> db (connectDatabases env0 (boot keys docs))"
    and "\<not> mongoClient (connectDatabases env0 (boot keys docs))"
    and "process (connectDatabases env0 (boot keys docs)) = Running"
    and "listening (connectDatabases env0 (boot keys docs))"
  using assms
  by (cases "redis_connect env0"; simp add: connectDatabases_def boot_def emit_def Let_def)+

lemma connected_state:
  "mongoClient (connectDatabases steady (boot Map.empty []))"
  "db (connectDatabases steady (boot Map.empty []))"
  "trace (connectDatabases steady (boot Map.empty []))
     = [Call ''redisClient.connect'', Console ''Connected to Redis'',
        Call ''mongoClient.connect'', Console ''Connected to MongoDB'']"
  "process (connectDatabases steady (boot Map.empty [])) = Running"
  "listening (connectDatabases steady (boot Map.empty []))"
  "visits (connectDatabases steady (boot Map.empty [])) = []"
  "inflight (connectDatabases steady (boot Map.empty [])) = 0"
  by (simp_all add: connectDatabases_def steady_def boot_def emit_def Let_def)

lemma match_route_exact: "match_route (route_path r) = Some r"
  by (cases r) (simp_all add: match_route_def routes_def layer_match_def lower_def)

lemma match_route_literal:
  "match_route ''/redis-test'' = Some RedisTestRoute"
  "match_route ''/crash'' = Some CrashRoute"
  "match_route ''/'' = Some RootRoute"
  "match_route ''/health'' = Some HealthRoute"
  "match_route ''/mongo-test'' = Some MongoTestRoute"
  using match_route_exact [of RedisTestRoute] match_route_exact [of CrashRoute]
    match_route_exact [of RootRoute] match_route_exact [of HealthRoute]
    match_route_exact [of MongoTestRoute]
  by simp_all

lemma match_route_none: "match_route ''/users/42'' = None"
  by (simp add: match_route_def routes_def layer_match_def lower_def)

text \<open>The pathname of a request whose target \<^verbatim>\<open>parseurl\<close> reads by itself.\<close>

lemma req_path_fast:
  "fast_path url \<Longrightarrow> req_path (get_request url) = Some (takeWhile (\<lambda>c. c \<noteq> CHR ''?'') url)"
  by (simp add: req_path_def get_request_def)

lemma req_path_literal:
  "req_path (get_request ''/redis-test'') = Some ''/redis-test''"
  "req_path (get_request ''/crash'') = Some ''/crash''"
  "req_path (get_request ''/'') = Some ''/''"
  "req_path (get_request ''/health'') = Some ''/health''"
  "req_path (get_request ''/mongo-test'') = Some ''/mongo-test''"
  "req_path (get_request ''/mongo-test?x=1'') = Some ''/mongo-test''"
  "req_path (get_request ''/users/42?x=1'') = Some ''/users/42''"
  by (simp_all add: req_path_def get_request_def fast_path_def leaves_fast_path_def)

lemma req_path_slow:
  "req_path fragment_request = Some ''/health''"
  "req_path pathless_request = None"
  by (simp_all add: req_path_def fragment_request_def pathless_request_def get_request_def
      fast_path_def leaves_fast_path_def)

lemma get_request_fields:
  "req_method (get_request url) = ''GET''" "req_url (get_request url) = url"
  "req_ip (get_request url) = ''127.0.0.1''" "user_agent (get_request url) = Some ''curl/8.0''"
  by (simp_all add: get_request_def)

text \<open>No handler touches the registry, and only \<^verbatim>\<open>/crash\<close> ends the process.\<close>

lemma redis_test_frame:
  "metrics_registry (snd (redis_test env st)) = metrics_registry st"
  "process (snd (redis_test env st)) = process st"
  by (simp_all add: redis_test_def emit_def Let_def split: settle.splits)

lemma mongo_test_frame:
  "metrics_registry (snd (mongo_test env req st)) = metrics_registry st"
  "process (snd (mongo_test env req st)) = process st"
  by (simp_all add: mongo_test_def emit_def Let_def split: settle.splits)

lemma health_check_frame:
  "metrics_registry (snd (health_check env st)) = metrics_registry st"
  "process (snd (health_check env st)) = process st"
  by (simp_all add: health_check_def check_mongo_def emit_def Let_def split: settle.splits)

lemma handle_route_registry:
  "metrics_registry (snd (handle_route r env req st)) = metrics_registry st"
  by (cases r)
     (simp_all add: redis_test_frame mongo_test_frame health_check_frame metrics_def
        root_page_def crash_def process_exit_def emit_def)

lemma router_registry: "metrics_registry (snd (router env req st)) = metrics_registry st"
  by (simp add: router_def not_found_def handle_route_registry split: option.splits)

text \<open>The finish listener with the service's own metrics library.\<close>

lemma on_finish_prom:
  "on_finish prom_client env req res st
     = st\<lparr>metrics_registry :=
            prom_observe (finish_labels req res) (elapsed env)
              (prom_inc (finish_labels req res) (metrics_registry st))\<rparr>"
  by (simp add: on_finish_def prom_client_def)

lemma app_answers:
  assumes "process st = Running" and "listening st"
    and "router env req st = (Some res, st1)" and "process st1 = Running"
  shows "fst (app prom_client env req st) = Some res"
    and "process (snd (app prom_client env req st)) = Running"
  using assms by (simp_all add: app_def on_finish_prom)

text \<open>
  A request to a route path, in a running process whose server listens, is handled by
  that route's handler.
\<close>

lemma router_get:
  assumes "req_method req = ''GET''" and "req_path req = Some (route_path r)"
  shows "router env req st = handle_route r env req st"
  using assms by (simp add: router_def match_route_exact)

lemma app_finish_registry:
  assumes "app prom_client env req st = (Some res, st')" and "process st' = Running"
    and "req_path req \<noteq> None"
  shows "metrics_registry st'
           = prom_observe (finish_labels req res) (elapsed env)
               (prom_inc (finish_labels req res) (metrics_registry st))"
proof -
  from assms(1) have run: "process st = Running \<and> listening st"
    by (auto simp: app_def split: if_splits)
  obtain r st1 where rt: "router env req st = (r, st1)"
    by (cases "router env req st")
  with assms(1) run have r: "r = Some res"
    by (auto simp: app_def split: option.splits)
  from rt r assms run have st': "st' = on_finish prom_client env req res st1"
    by (auto simp: app_def on_finish_prom split: if_splits)
  from rt have reg: "metrics_registry st1 = metrics_registry st"
    using router_registry [of env req st] by simp
  show ?thesis
    by (simp add: st' on_finish_prom reg)
qed

section \<open>GET /health\<close>

lemma health_samples:
  "fst (health_check steady (connectDatabases steady (boot Map.empty [])))
     = Some \<lparr>statusCode = 200,
             payload = Json (JObject [(''status'', JString ''OK''),
                                      (''timestamp'', JString ''1970-01-01T00:00:00.000Z''),
                                      (''services'', JObject [(''redis'', JString ''connected''),
                                                              (''mongodb'', JString ''connected'')])])\<rparr>"
  "fst (health_check redis_down (connectDatabases steady (boot Map.empty [])))
     = Some \<lparr>statusCode = 200,
             payload = Json (JObject [(''status'', JString ''DEGRADED''),
                                      (''timestamp'', JString ''1970-01-01T00:00:00.000Z''),
                                      (''services'', JObject [(''redis'', JString ''disconnected''),
                                                              (''mongodb'', JString ''connected'')])])\<rparr>"
  by (simp_all add: health_check_def check_mongo_def health_response_def res_json_def connected_state
      down_fields steady_fields probe_ok_def probe_failed_def health_json_def emit_def Let_def)



text \<open>
  C5. The two probes of \<^verbatim>\<open>GET /health\<close> are independent. Whether the Redis ping
  resolves or is rejected, the handler goes on to the MongoDB probe (it sends the
  MongoDB ping whenever the client exists); and whatever the MongoDB probe does, the
  Redis ping has been sent. Each failure is caught on its own: the \<^verbatim>\<open>redis\<close> field
  depends on the Redis ping alone and the \<^verbatim>\<open>mongodb\<close> field on the MongoDB probe
  alone.
\<close>

theorem health_probes_independent:
  assumes "redis_ping env \<noteq> Pends" and "mongoClient st \<longrightarrow> mongo_ping env \<noteq> Pends"
  shows "trace (snd (health_check env st))
           = trace st @ (if mongoClient st then [Call ''redisClient.ping'', Call ''admin.ping'']
                         else [Call ''redisClient.ping''])
         \<and> (\<exists>res. fst (health_check env st) = Some res
              \<and> service_field ''redis'' res
                  = Some (JString (if redis_ping env = Resolves then ''connected'' else ''disconnected''))
              \<and> service_field ''mongodb'' res
                  = Some (JString (if mongoClient st \<and> mongo_ping env = Resolves
                                   then ''connected'' else ''disconnected'')))"
  using assms
  by (cases "redis_ping env"; cases "mongo_ping env")
     (auto simp: health_check_def check_mongo_def health_response_def res_json_def Let_def probe_ok_def
        probe_failed_def health_json_def emit_def body_field_def service_field_def)

theorem health_probes_independent_witness:
  "redis_ping redis_down \<noteq> Pends \<and> mongo_ping redis_down \<noteq> Pends
   \<and> trace (snd (health_check redis_down (connectDatabases steady (boot Map.empty []))))
       = trace (connectDatabases steady (boot Map.empty []))
         @ [Call ''redisClient.ping'', Call ''admin.ping'']
   \<and> (\<exists>res. fst (health_check redis_down (connectDatabases steady (boot Map.empty []))) = Some res
         \<and> service_field ''redis'' res = Some (JString ''disconnected'')
         \<and> service_field ''mongodb'' res = Some (JString ''connected''))"
proof -
  have a: "redis_ping redis_down \<noteq> Pends" "mongo_ping redis_down \<noteq> Pends"
    "redis_ping redis_down \<noteq> Resolves" "mongo_ping redis_down = Resolves"
    by (simp_all add: down_fields)
  from a have b: "mongoClient (connectDatabases steady (boot Map.empty []))
                    \<longrightarrow> mongo_ping redis_down \<noteq> Pends"
    by simp
  from health_probes_independent [OF a(1) b] a connected_state(1)
  show ?thesis by simp
qed

section \<open>Failing dependencies\<close>

lemma redis_fails_500:
  assumes "redis_op_fails env"
  shows "\<exists>res d. fst (redis_test env st) = Some res \<and> statusCode res = 500
           \<and> body_field ''error'' res = Some (JString ''Redis connection failed'')
           \<and> body_field ''details'' res = Some (JString d)"
  using assms
  by (cases "redis_get env"; cases "redis_set env")
     (auto simp: redis_op_fails_def rejected_def redis_test_def Let_def emit_def
        redis_failed_def res_json_def body_field_def)

lemma mongo_fails_500:
  assumes "mongo_op_fails env st"
  shows "\<exists>res d. fst (mongo_test env req st) = Some res \<and> statusCode res = 500
           \<and> body_field ''error'' res = Some (JString ''MongoDB connection failed'')
           \<and> body_field ''details'' res = Some (JString d)"
  using assms
  by (cases "insertOne env"; cases "countDocuments env")
     (auto simp: mongo_op_fails_def rejected_def mongo_test_def Let_def emit_def
        mongo_failed_def res_json_def body_field_def split: if_splits)

text \<open>
  If either connection was not made at start, \<^verbatim>\<open>db\<close> is never assigned, and every
  later \<^verbatim>\<open>/mongo-test\<close> fails.
\<close>

lemma never_connected:
  assumes "redis_connect env0 \<noteq> Resolves \<or> mongo_connect env0 \<noteq> Resolves"
  shows "mongo_op_fails env (connectDatabases env0 (boot keys docs))"
  using assms
  by (cases "redis_connect env0"; cases "mongo_connect env0")
     (auto simp: mongo_op_fails_def connectDatabases_def boot_def emit_def Let_def)

text \<open>
  A closed Redis client rejects the \<^verbatim>\<open>get\<close> of \<^verbatim>\<open>/redis-test\<close>. An open client
  without a connection keeps it in its queue: the operation does not fail, and the
  handler sends nothing.
\<close>

lemma redis_closed_fails: "redisClient st = Closed \<Longrightarrow> redis_op_fails (awaited st env)"
  by (simp add: redis_op_fails_def rejected_def awaited_closed)

lemma redis_offline_waits:
  assumes "redisClient st = Offline"
  shows "\<not> redis_op_fails (awaited st env)"
    and "fst (redis_test (awaited st env) st) = None"
  using assms
  by (simp_all add: redis_op_fails_def rejected_def awaited_offline redis_test_def Let_def)

lemma app_dependency_failure:
  assumes run: "process st = Running" "listening st" "req_method req = ''GET''"
    and fails: "(req_path req = Some ''/redis-test'' \<and> redis_op_fails (awaited st env))
                \<or> (req_path req = Some ''/mongo-test'' \<and> mongo_op_fails env st)"
  shows "(\<exists>res. fst (app prom_client env req st) = Some res \<and> statusCode res = 500)
         \<and> process (snd (app prom_client env req st)) = Running"
proof -
  from fails consider
      (redis) "req_path req = Some ''/redis-test''" "redis_op_fails (awaited st env)"
    | (mongo) "req_path req = Some ''/mongo-test''" "mongo_op_fails env st"
    by blast
  then have "\<exists>res st1. router env req st = (Some res, st1) \<and> statusCode res = 500
                \<and> process st1 = Running"
  proof cases
    case redis
    from redis_fails_500 [OF redis(2), of st]
    obtain res where "fst (redis_test (awaited st env) st) = Some res" "statusCode res = 500"
      by blast
    moreover have "router env req st = redis_test (awaited st env) st"
      using router_get [of req RedisTestRoute env st] run redis(1) by simp
    ultimately show ?thesis
      using redis_test_frame(2) [of "awaited st env" st] run(1)
      by (cases "redis_test (awaited st env) st") auto
  next
    case mongo
    from mongo_fails_500 [OF mongo(2), of req]
    obtain res where "fst (mongo_test env req st) = Some res" "statusCode res = 500"
      by blast
    moreover have "router env req st = mongo_test env req st"
      using router_get [of req MongoTestRoute env st] run mongo(1) by simp
    ultimately show ?thesis
      using mongo_test_frame(2) [of env req st] run(1)
      by (cases "mongo_test env req st") auto
  qed
  then obtain res st1 where r: "router env req st = (Some res, st1)" "statusCode res = 500"
      "process st1 = Running"
    by blast
  from app_answers [OF run(1,2) r(1,3)] r(2) show ?thesis
    by blast
qed

text \<open>
  A request to \<^verbatim>\<open>/redis-test\<close> while the client is open without a connection gets no
  response and stays in flight.
\<close>

lemma app_redis_offline:
  assumes "process st = Running" and "listening st" and "redisClient st = Offline"
    and "req_method req = ''GET''" and "req_path req = Some ''/redis-test''"
  shows "fst (app lib env req st) = None"
    and "inflight (snd (app lib env req st)) = inflight st + 1"
    and "process (snd (app lib env req st)) = Running"
proof -
  have "router env req st = redis_test (awaited st env) st"
    using router_get [of req RedisTestRoute env st] assms(4,5) by simp
  then have r: "router env req st = (None, emit (Call ''redisClient.get'') st)"
    using assms(3) by (simp add: redis_test_def Let_def awaited_offline)
  show "fst (app lib env req st) = None"
    and "inflight (snd (app lib env req st)) = inflight st + 1"
    and "process (snd (app lib env req st)) = Running"
    using assms(1,2) by (simp_all add: app_def r emit_def)
qed

text \<open>
  C6, as amended. When the dependency operation of \<^verbatim>\<open>GET /redis-test\<close> fails (its
  \<^verbatim>\<open>get\<close> is rejected, or its \<^verbatim>\<open>set\<close> after a successful \<^verbatim>\<open>get\<close>), or that of
  \<^verbatim>\<open>GET /mongo-test\<close> fails (\<^verbatim>\<open>db\<close> was never assigned, or the insert is rejected, or
  the count after a successful insert), the handler answers 500 with a body that has an
  \<^verbatim>\<open>error\<close> and a \<^verbatim>\<open>details\<close> field, and the process goes on running: the handler
  leaves the state of the process as it was, and the request as a whole, through the
  metrics middleware, ends with the process running. A MongoDB connection never made
  at start is such a failure: then \<^verbatim>\<open>db\<close> is unassigned and \<^verbatim>\<open>/mongo-test\<close> answers
  500. So is a command given to a closed Redis client. A Redis connection that was not
  made at start is not: the client is open without a connection, the \<^verbatim>\<open>get\<close> waits in
  its queue and is not rejected, and \<^verbatim>\<open>/redis-test\<close> sends no response. No handler
  ends the process; the loss of a Redis connection that was made does, by itself.
\<close>

theorem dependency_failure_gives_500:
  "(redis_op_fails env \<longrightarrow>
      (\<exists>res d. fst (redis_test env st) = Some res \<and> statusCode res = 500
          \<and> body_field ''error'' res = Some (JString ''Redis connection failed'')
          \<and> body_field ''details'' res = Some (JString d))
      \<and> process (snd (redis_test env st)) = process st)
   \<and> (mongo_op_fails env st \<longrightarrow>
      (\<exists>res d. fst (mongo_test env req st) = Some res \<and> statusCode res = 500
          \<and> body_field ''error'' res = Some (JString ''MongoDB connection failed'')
          \<and> body_field ''details'' res = Some (JString d))
      \<and> process (snd (mongo_test env req st)) = process st)
   \<and> (redis_connect env0 \<noteq> Resolves \<or> mongo_connect env0 \<noteq> Resolves \<longrightarrow>
        mongo_op_fails env (connectDatabases env0 (boot keys docs)))
   \<and> (process st = Running \<and> listening st \<and> req_method req = ''GET''
        \<and> ((req_path req = Some ''/redis-test'' \<and> redis_op_fails (awaited st env))
            \<or> (req_path req = Some ''/mongo-test'' \<and> mongo_op_fails env st)) \<longrightarrow>
        (\<exists>res. fst (app prom_client env req st) = Some res \<and> statusCode res = 500)
        \<and> process (snd (app prom_client env req st)) = Running)
   \<and> (redisClient st = Closed \<longrightarrow> redis_op_fails (awaited st env))
   \<and> (redis_connect env0 \<noteq> Resolves \<longrightarrow>
        redisClient (connectDatabases env0 (boot keys docs)) = Offline)
   \<and> (redisClient st = Offline \<longrightarrow>
        \<not> redis_op_fails (awaited st env) \<and> fst (redis_test (awaited st env) st) = None)
   \<and> (process st = Running \<and> listening st \<and> redisClient st = Offline
        \<and> req_method req = ''GET'' \<and> req_path req = Some ''/redis-test'' \<longrightarrow>
        fst (app prom_client env req st) = None
        \<and> process (snd (app prom_client env req st)) = Running)
   \<and> (process st = Running \<and> redisClient st = Ready \<longrightarrow>
        process (redis_connection_lost e st) = Uncaught e)"
proof -
  have 1: "redis_op_fails env \<longrightarrow>
      (\<exists>res d. fst (redis_test env st) = Some res \<and> statusCode res = 500
          \<and> body_field ''error'' res = Some (JString ''Redis connection failed'')
          \<and> body_field ''details'' res = Some (JString d))
      \<and> process (snd (redis_test env st)) = process st"
    using redis_fails_500 [of env st] redis_test_frame(2) [of env st] by blast
  have 2: "mongo_op_fails env st \<longrightarrow>
      (\<exists>res d. fst (mongo_test env req st) = Some res \<and> statusCode res = 500
          \<and> body_field ''error'' res = Some (JString ''MongoDB connection failed'')
          \<and> body_field ''details'' res = Some (JString d))
      \<and> process (snd (mongo_test env req st)) = process st"
    using mongo_fails_500 [of env st req] mongo_test_frame(2) [of env req st] by blast
  have 3: "redis_connect env0 \<noteq> Resolves \<or> mongo_connect env0 \<noteq> Resolves \<longrightarrow>
        mongo_op_fails env (connectDatabases env0 (boot keys docs))"
    using never_connected [of env0 env keys docs] by blast
  have 4: "process st = Running \<and> listening st \<and> req_method req = ''GET''
        \<and> ((req_path req = Some ''/redis-test'' \<and> redis_op_fails (awaited st env))
            \<or> (req_path req = Some ''/mongo-test'' \<and> mongo_op_fails env st)) \<longrightarrow>
        (\<exists>res. fst (app prom_client env req st) = Some res \<and> statusCode res = 500)
        \<and> process (snd (app prom_client env req st)) = Running"
    using app_dependency_failure [of st req env] by blast
  have 5: "redisClient st = Closed \<longrightarrow> redis_op_fails (awaited st env)"
    using redis_closed_fails [of st env] by blast
  have 6: "redis_connect env0 \<noteq> Resolves \<longrightarrow>
        redisClient (connectDatabases env0 (boot keys docs)) = Offline"
    using refused_fields(1) [of env0 keys docs] by blast
  have 7: "redisClient st = Offline \<longrightarrow>
        \<not> redis_op_fails (awaited st env) \<and> fst (redis_test (awaited st env) st) = None"
    using redis_offline_waits [of st env] by blast
  have 8: "process st = Running \<and> listening st \<and> redisClient st = Offline
        \<and> req_method req = ''GET'' \<and> req_path req = Some ''/redis-test'' \<longrightarrow>
        fst (app prom_client env req st) = None
        \<and> process (snd (app prom_client env req st)) = Running"
    using app_redis_offline(1,3) [of st req prom_client env] by blast
  have 9: "process st = Running \<and> redisClient st = Ready \<longrightarrow>
        process (redis_connection_lost e st) = Uncaught e"
    by (simp add: redis_connection_lost_def)
  from 1 2 3 4 5 6 7 8 9 show ?thesis
    by (intro conjI)
qed

theorem dependency_failure_gives_500_witness:
  "redis_op_fails redis_down
   \<and> fst (redis_test redis_down (boot Map.empty []))
       = Some \<lparr>statusCode = 500,
               payload = Json (JObject [(''error'', JString ''Redis connection failed''),
                                        (''details'', JString ''The client is closed'')])\<rparr>
   \<and> process (snd (redis_test redis_down (boot Map.empty []))) = Running
   \<and> redis_connect redis_down \<noteq> Resolves
   \<and> mongo_op_fails steady (connectDatabases redis_down (boot Map.empty []))
   \<and> (\<exists>res d. fst (mongo_test steady (get_request ''/mongo-test'')
                       (connectDatabases redis_down (boot Map.empty []))) = Some res
         \<and> statusCode res = 500
         \<and> body_field ''error'' res = Some (JString ''MongoDB connection failed'')
         \<and> body_field ''details'' res = Some (JString d))
   \<and> mongo_op_fails mongo_down (connectDatabases steady (boot Map.empty []))
   \<and> (\<exists>res. fst (app prom_client mongo_down (get_request ''/mongo-test'')
                     (connectDatabases steady (boot Map.empty []))) = Some res
         \<and> statusCode res = 500)
   \<and> process (snd (app prom_client mongo_down (get_request ''/mongo-test'')
                      (connectDatabases steady (boot Map.empty [])))) = Running
   \<and> redis_op_fails (awaited (connectDatabases steady (boot Map.empty [])) redis_wrongtype)
   \<and> (\<exists>res. fst (app prom_client redis_wrongtype (get_request ''/redis-test'')
                     (connectDatabases steady (boot Map.empty []))) = Some res
         \<and> statusCode res = 500)
   \<and> process (snd (app prom_client redis_wrongtype (get_request ''/redis-test'')
                      (connectDatabases steady (boot Map.empty [])))) = Running
   \<and> redisClient (boot Map.empty []) = Closed
   \<and> redis_op_fails (awaited (boot Map.empty []) steady)
   \<and> redisClient (connectDatabases redis_down (boot Map.empty [])) = Offline
   \<and> \<not> redis_op_fails (awaited (connectDatabases redis_down (boot Map.empty [])) redis_down)
   \<and> fst (app prom_client redis_down (get_request ''/redis-test'')
             (connectDatabases redis_down (boot Map.empty []))) = None
   \<and> process (redis_connection_lost (Error ''read ECONNRESET'')
                (connectDatabases steady (boot Map.empty [])))
       = Uncaught (Error ''read ECONNRESET'')"
proof -
  let ?st = "connectDatabases redis_down (boot Map.empty [])"
  let ?up = "connectDatabases steady (boot Map.empty [])"
  let ?req = "get_request ''/mongo-test''"
  let ?rreq = "get_request ''/redis-test''"
  have a: "redis_op_fails redis_down"
    by (simp add: redis_op_fails_def rejected_def down_fields)
  have b: "fst (redis_test redis_down (boot Map.empty []))
       = Some \<lparr>statusCode = 500,
               payload = Json (JObject [(''error'', JString ''Redis connection failed''),
                                        (''details'', JString ''The client is closed'')])\<rparr>"
    by (simp add: redis_test_def down_fields redis_failed_def res_json_def Let_def)
  have c: "redis_connect redis_down \<noteq> Resolves"
    by (simp add: down_fields)
  from dependency_failure_gives_500 [where env = redis_down and st = "boot Map.empty []"] a
  have p: "process (snd (redis_test redis_down (boot Map.empty []))) = Running"
    by (simp add: boot_def)
  from dependency_failure_gives_500
    [where env = steady and ?env0.0 = redis_down and keys = Map.empty and docs = "[]"] c
  have m: "mongo_op_fails steady ?st"
    by blast
  from dependency_failure_gives_500 [where env = steady and st = ?st and req = ?req] m
  have r: "\<exists>res d. fst (mongo_test steady ?req ?st) = Some res
         \<and> statusCode res = 500
         \<and> body_field ''error'' res = Some (JString ''MongoDB connection failed'')
         \<and> body_field ''details'' res = Some (JString d)"
    by blast
  have f: "mongo_op_fails mongo_down ?up"
    by (simp add: mongo_op_fails_def rejected_def connected_state mongo_down_def)
  have q: "req_method ?req = ''GET''" "req_path ?req = Some ''/mongo-test''"
    "req_method ?rreq = ''GET''" "req_path ?rreq = Some ''/redis-test''"
    by (simp_all add: get_request_fields req_path_literal)
  from dependency_failure_gives_500 [where env = mongo_down and st = ?up and req = ?req]
    f q connected_state(4,5)
  have g: "(\<exists>res. fst (app prom_client mongo_down ?req ?up) = Some res \<and> statusCode res = 500)
           \<and> process (snd (app prom_client mongo_down ?req ?up)) = Running"
    by blast
  have w: "redis_op_fails (awaited ?up redis_wrongtype)"
    by (simp add: awaited_ready connected_fields redis_op_fails_def rejected_def
        redis_wrongtype_def)
  from dependency_failure_gives_500 [where env = redis_wrongtype and st = ?up and req = ?rreq]
    w q connected_state(4,5)
  have h: "(\<exists>res. fst (app prom_client redis_wrongtype ?rreq ?up) = Some res \<and> statusCode res = 500)
           \<and> process (snd (app prom_client redis_wrongtype ?rreq ?up)) = Running"
    by blast
  have k: "redisClient (boot Map.empty []) = Closed"
    by (simp add: boot_def)
  from dependency_failure_gives_500 [where env = steady and st = "boot Map.empty []"] k
  have kf: "redis_op_fails (awaited (boot Map.empty []) steady)"
    by blast
  from dependency_failure_gives_500
    [where ?env0.0 = redis_down and keys = Map.empty and docs = "[]"] c
  have off: "redisClient ?st = Offline"
    by blast
  from dependency_failure_gives_500 [where env = redis_down and st = ?st] off
  have nf: "\<not> redis_op_fails (awaited ?st redis_down)"
    by blast
  have run: "process ?st = Running" "listening ?st"
    using refused_fields(4,5) [OF c] by simp_all
  from dependency_failure_gives_500 [where env = redis_down and st = ?st and req = ?rreq]
    off run q
  have na: "fst (app prom_client redis_down ?rreq ?st) = None"
    by blast
  from dependency_failure_gives_500
    [where st = ?up and e = "Error ''read ECONNRESET''"] connected_fields(1,4)
  have lost: "process (redis_connection_lost (Error ''read ECONNRESET'') ?up)
                = Uncaught (Error ''read ECONNRESET'')"
    by blast
  from a b p c m r f g w h k kf off nf na lost show ?thesis
    by blast
qed

text \<open>
  C6 as stated fails when the Redis connection was never established: after a start
  at which \<^verbatim>\<open>connect\<close> was refused, a request to \<^verbatim>\<open>/redis-test\<close> gets no response at
  all, not a 500, and stays in flight. And when a Redis connection that was made is
  lost, the process ends with an uncaught exception, after which no request is
  answered.
\<close>

theorem redis_never_connected_counterexample:
  "redis_connect redis_down = Rejects (Error ''connect ECONNREFUSED'')
   \<and> redisClient (connectDatabases redis_down (boot Map.empty [])) = Offline
   \<and> fst (app prom_client redis_down (get_request ''/redis-test'')
             (connectDatabases redis_down (boot Map.empty []))) = None
   \<and> inflight (snd (app prom_client redis_down (get_request ''/redis-test'')
                      (connectDatabases redis_down (boot Map.empty [])))) = 1
   \<and> process (redis_connection_lost (Error ''read ECONNRESET'')
                (connectDatabases steady (boot Map.empty [])))
       = Uncaught (Error ''read ECONNRESET'')
   \<and> fst (app prom_client steady (get_request ''/redis-test'')
             (redis_connection_lost (Error ''read ECONNRESET'')
                (connectDatabases steady (boot Map.empty [])))) = None"
proof -
  let ?st = "connectDatabases redis_down (boot Map.empty [])"
  let ?up = "connectDatabases steady (boot Map.empty [])"
  let ?req = "get_request ''/redis-test''"
  have c: "redis_connect redis_down \<noteq> Resolves"
    by (simp add: down_fields)
  have off: "redisClient ?st = Offline" and run: "process ?st = Running" "listening ?st"
    using refused_fields [OF c] by simp_all
  have q: "req_method ?req = ''GET''" "req_path ?req = Some ''/redis-test''"
    by (simp_all add: get_request_fields req_path_literal)
  have i: "inflight ?st = 0"
    by (simp add: connectDatabases_def down_fields boot_def emit_def Let_def)
  have lost: "process (redis_connection_lost (Error ''read ECONNRESET'') ?up)
                = Uncaught (Error ''read ECONNRESET'')"
    by (simp add: redis_connection_lost_def connected_fields)
  then have dead: "fst (app prom_client steady ?req
                          (redis_connection_lost (Error ''read ECONNRESET'') ?up)) = None"
    by (simp add: app_def)
  from app_redis_offline [OF run off q, of prom_client redis_down] i lost dead off
  show ?thesis
    by (simp add: down_fields)
qed

section \<open>GET /mongo-test\<close>

text \<open>The answer of a call whose insert and count both resolve.\<close>

lemma mongo_test_resolved:
  assumes "db st" and "insertOne env = Resolves" and "countDocuments env = Resolves"
  shows "fst (mongo_test env req st)
           = Some (res_json 200
                (JObject [(''message'', JString ''MongoDB test successful''),
                          (''insertedId'', JObjectId (new_id env)),
                          (''total_visits'',
                             JNumber (to_number (int (length
                               (others env (visits st @ [(new_id env, bson (visit env req))])))))),
                          (''timestamp'', JString (iso_now env))]))"
    and "visits (snd (mongo_test env req st))
           = others env (visits st @ [(new_id env, bson (visit env req))])"
  using assms by (simp_all add: mongo_test_def Let_def emit_def)

lemma mongo_test_200:
  assumes "fst (mongo_test env req st) = Some res" and "statusCode res = 200"
  shows "db st" and "insertOne env = Resolves" and "countDocuments env = Resolves"
  using assms
  by (auto simp: mongo_test_def Let_def mongo_failed_def res_json_def
      split: if_splits settle.splits)

lemma total_visits_field:
  "body_field ''total_visits''
     (res_json 200 (JObject [(''message'', JString m), (''insertedId'', JObjectId i),
                             (''total_visits'', JNumber n), (''timestamp'', JString t)]))
     = Some (stringify (JNumber n))"
  "body_field ''insertedId''
     (res_json 200 (JObject [(''message'', JString m), (''insertedId'', JObjectId i),
                             (''total_visits'', JNumber n), (''timestamp'', JString t)]))
     = Some (JObjectId i)"
  by (cases n; simp add: body_field_def res_json_def)+

text \<open>A request in a running process whose server listens is answered as the router answers it.\<close>

lemma app_fst:
  "process st = Running \<Longrightarrow> listening st \<Longrightarrow> fst (app lib env req st) = fst (router env req st)"
  by (cases "router env req st") (auto simp: app_def split: option.splits)

text \<open>
  C7, as amended. Every call to \<^verbatim>\<open>GET /mongo-test\<close> that answers 200 has inserted
  exactly one document into the \<^verbatim>\<open>visits\<close> collection, made of \<^verbatim>\<open>timestamp\<close>, the
  client's \<^verbatim>\<open>ip\<close> and its \<^verbatim>\<open>userAgent\<close> (stored as \<^verbatim>\<open>null\<close> when the request has no
  such header), and has then counted the collection as the other clients left it. The
  answer carries the id of the inserted document and, as \<^verbatim>\<open>total_visits\<close>, that count
  as a JavaScript number: the count itself up to \<open>2 ^ 53\<close>. So \<^verbatim>\<open>total_visits\<close> is
  exactly one greater than the number of documents before the call when nobody else
  changed the collection between the insert and the count and there were fewer than
  \<open>2 ^ 53\<close> documents.
\<close>

theorem mongo_test_inserts_one:
  assumes "fst (mongo_test env req st) = Some res" and "statusCode res = 200"
  shows "visits (snd (mongo_test env req st))
           = others env (visits st @ [(new_id env, bson (visit env req))])
         \<and> field ''timestamp'' (bson (visit env req)) = Some (JDate (date_now env))
         \<and> field ''ip'' (bson (visit env req)) = Some (JString (req_ip req))
         \<and> field ''userAgent'' (bson (visit env req))
             = Some (case user_agent req of None \<Rightarrow> JNull | Some u \<Rightarrow> JString u)
         \<and> body_field ''insertedId'' res = Some (JObjectId (new_id env))
         \<and> body_field ''total_visits'' res
             = Some (stringify (JNumber (to_number (int (length (visits (snd (mongo_test env req st))))))))
         \<and> (length (visits (snd (mongo_test env req st))) \<le> 2 ^ 53 \<longrightarrow>
              body_field ''total_visits'' res
                = Some (JNumber (Num (int (length (visits (snd (mongo_test env req st))))))))
         \<and> (others env (visits st @ [(new_id env, bson (visit env req))])
                = visits st @ [(new_id env, bson (visit env req))]
              \<and> length (visits st) < 2 ^ 53 \<longrightarrow>
              body_field ''total_visits'' res
                = Some (JNumber (Num (int (length (visits st)) + 1))))"
proof -
  let ?doc = "(new_id env, bson (visit env req))"
  let ?after = "others env (visits st @ [?doc])"
  note ok = mongo_test_200 [OF assms]
  from mongo_test_resolved(1) [OF ok, of req] assms(1)
  have res: "res = res_json 200
                (JObject [(''message'', JString ''MongoDB test successful''),
                          (''insertedId'', JObjectId (new_id env)),
                          (''total_visits'', JNumber (to_number (int (length ?after)))),
                          (''timestamp'', JString (iso_now env))])"
    by simp
  have v: "visits (snd (mongo_test env req st)) = ?after"
    by (rule mongo_test_resolved(2) [OF ok])
  have total: "body_field ''total_visits'' res
                 = Some (stringify (JNumber (to_number (int (length ?after)))))"
    and inserted: "body_field ''insertedId'' res = Some (JObjectId (new_id env))"
    unfolding res by (rule total_visits_field)+
  have small: "stringify (JNumber (to_number (int n))) = JNumber (Num (int n))"
    if "n \<le> 2 ^ 53" for n :: nat
    using that by (simp add: to_number_small)
  have doc: "field ''timestamp'' (bson (visit env req)) = Some (JDate (date_now env))"
    "field ''ip'' (bson (visit env req)) = Some (JString (req_ip req))"
    "field ''userAgent'' (bson (visit env req))
       = Some (case user_agent req of None \<Rightarrow> JNull | Some u \<Rightarrow> JString u)"
    by (simp_all add: visit_def split: option.splits)
  have bounded: "body_field ''total_visits'' res = Some (JNumber (Num (int (length ?after))))"
    if "length ?after \<le> 2 ^ 53"
    using that total small [of "length ?after"] by simp
  have alone: "body_field ''total_visits'' res = Some (JNumber (Num (int (length (visits st)) + 1)))"
    if "?after = visits st @ [?doc] \<and> length (visits st) < 2 ^ 53"
  proof -
    from that have l: "length ?after = Suc (length (visits st))"
      by simp
    with that have "length ?after \<le> 2 ^ 53"
      by simp
    from bounded [OF this] l show ?thesis
      by (simp add: add.commute)
  qed
  from v doc inserted total bounded alone show ?thesis
    by simp
qed

theorem mongo_test_inserts_one_witness:
  "fst (mongo_test steady (get_request ''/mongo-test'') (connectDatabases steady (boot Map.empty [])))
     = Some \<lparr>statusCode = 200,
             payload = Json (JObject [(''message'', JString ''MongoDB test successful''),
                                      (''insertedId'', JObjectId 1),
                                      (''total_visits'', JNumber (Num 1)),
                                      (''timestamp'', JString ''1970-01-01T00:00:00.000Z'')])\<rparr>
   \<and> length (visits (connectDatabases steady (boot Map.empty []))) < 2 ^ 53
   \<and> visits (snd (mongo_test steady (get_request ''/mongo-test'')
                    (connectDatabases steady (boot Map.empty []))))
       = [(1, JObject [(''timestamp'', JDate 0), (''ip'', JString ''127.0.0.1''),
                       (''userAgent'', JString ''curl/8.0'')])]
   \<and> body_field ''total_visits''
        \<lparr>statusCode = 200,
         payload = Json (JObject [(''message'', JString ''MongoDB test successful''),
                                  (''insertedId'', JObjectId 1),
                                  (''total_visits'', JNumber (Num 1)),
                                  (''timestamp'', JString ''1970-01-01T00:00:00.000Z'')])\<rparr>
       = Some (JNumber (Num (int (length (visits (connectDatabases steady (boot Map.empty [])))) + 1)))"
proof -
  let ?st = "connectDatabases steady (boot Map.empty [])"
  let ?req = "get_request ''/mongo-test''"
  let ?res = "\<lparr>statusCode = 200,
             payload = Json (JObject [(''message'', JString ''MongoDB test successful''),
                                      (''insertedId'', JObjectId 1),
                                      (''total_visits'', JNumber (Num 1)),
                                      (''timestamp'', JString ''1970-01-01T00:00:00.000Z'')])\<rparr>"
  have f: "fst (mongo_test steady ?req ?st) = Some ?res"
    by (simp add: mongo_test_def connected_state Let_def emit_def steady_fields to_number_small
        res_json_def)
  have s: "statusCode ?res = 200"
    by simp
  have l: "length (visits ?st) < 2 ^ 53"
    by (simp add: connected_state)
  note t = mongo_test_inserts_one [OF f s]
  from t have v: "visits (snd (mongo_test steady ?req ?st))
             = [(1, JObject [(''timestamp'', JDate 0), (''ip'', JString ''127.0.0.1''),
                             (''userAgent'', JString ''curl/8.0'')])]"
    by (simp add: connected_state visit_def steady_fields get_request_def)
  have alone: "others steady (visits ?st @ [(new_id steady, bson (visit steady ?req))])
                 = visits ?st @ [(new_id steady, bson (visit steady ?req))]"
    by (simp add: steady_fields)
  from t alone l
  have b: "body_field ''total_visits'' ?res = Some (JNumber (Num (int (length (visits ?st)) + 1)))"
    by blast
  from f l v b show ?thesis
    by blast
qed

text \<open>
  C7 as stated fails in two ways. When another client inserts a document between the
  handler's insert and its count, a call made on an empty collection answers
  \<^verbatim>\<open>total_visits\<close> 2, which is two greater than the count before the call. And on a
  collection of \<open>2 ^ 53\<close> documents, a call that nobody disturbs answers \<open>2 ^ 53\<close>,
  the count before the call: the count after it, \<open>2 ^ 53 + 1\<close>, is no JavaScript
  number.
\<close>

theorem mongo_test_total_counterexample:
  "visits (connectDatabases steady (boot Map.empty [])) = []
   \<and> map_option statusCode
        (fst (app prom_client mongo_shared (get_request ''/mongo-test'')
                (connectDatabases steady (boot Map.empty [])))) = Some 200
   \<and> map_option (body_field ''total_visits'')
        (fst (app prom_client mongo_shared (get_request ''/mongo-test'')
                (connectDatabases steady (boot Map.empty [])))) = Some (Some (JNumber (Num 2)))
   \<and> length (visits (connectDatabases steady (boot Map.empty (replicate (2 ^ 53) (0, JNull)))))
       = 2 ^ 53
   \<and> map_option statusCode
        (fst (app prom_client steady (get_request ''/mongo-test'')
                (connectDatabases steady (boot Map.empty (replicate (2 ^ 53) (0, JNull))))))
       = Some 200
   \<and> map_option (body_field ''total_visits'')
        (fst (app prom_client steady (get_request ''/mongo-test'')
                (connectDatabases steady (boot Map.empty (replicate (2 ^ 53) (0, JNull))))))
       = Some (Some (JNumber (Num (2 ^ 53))))"
proof -
  let ?req = "get_request ''/mongo-test''"
  let ?up = "connectDatabases steady (boot Map.empty [])"
  let ?big = "connectDatabases steady (boot Map.empty (replicate (2 ^ 53) (0, JNull)))"
  have q: "req_method ?req = ''GET''" "req_path ?req = Some (route_path MongoTestRoute)"
    by (simp_all add: get_request_fields req_path_literal)
  have app: "fst (app prom_client env ?req (connectDatabases steady (boot Map.empty docs)))
               = fst (mongo_test env ?req (connectDatabases steady (boot Map.empty docs)))"
    for env docs
    using app_fst [of "connectDatabases steady (boot Map.empty docs)" prom_client env ?req]
      router_get [OF q, of env "connectDatabases steady (boot Map.empty docs)"]
    by (simp add: connected_fields)
  have shared: "insertOne mongo_shared = Resolves" "countDocuments mongo_shared = Resolves"
    "length (others mongo_shared (visits ?up @ [d])) = 2" for d
    by (simp_all add: mongo_shared_def steady_fields connected_fields)
  have two: "to_number (int 2) = Num 2"
    by (simp add: to_number_small)
  have a: "fst (app prom_client mongo_shared ?req ?up)
             = Some (res_json 200
                  (JObject [(''message'', JString ''MongoDB test successful''),
                            (''insertedId'', JObjectId (new_id mongo_shared)),
                            (''total_visits'', JNumber (Num 2)),
                            (''timestamp'', JString (iso_now mongo_shared))]))"
    unfolding app
    by (simp only: mongo_test_resolved(1) [OF connected_fields(3) shared(1,2)] shared(3) two)
  have count: "int (length (others steady (visits ?big @ [d]))) = 2 ^ 53 + 1" for d
    by (simp add: steady_fields connected_fields)
  have b: "fst (app prom_client steady ?req ?big)
             = Some (res_json 200
                  (JObject [(''message'', JString ''MongoDB test successful''),
                            (''insertedId'', JObjectId (new_id steady)),
                            (''total_visits'', JNumber (Num (2 ^ 53))),
                            (''timestamp'', JString (iso_now steady))]))"
    unfolding app
    by (simp only: mongo_test_resolved(1) [OF connected_fields(3) steady_fields(1,2)] count
        to_number_stuck)
  have s: "statusCode (res_json 200 v) = 200" for v
    by (simp add: res_json_def)
  have n: "stringify (JNumber (Num i)) = JNumber (Num i)" for i
    by simp
  have e: "visits ?up = []"
    by (simp add: connected_fields)
  have l: "length (visits ?big) = 2 ^ 53"
    by (simp add: connected_fields)
  show ?thesis
    unfolding a b by (simp only: e l s n total_visits_field option.map simp_thms)
qed

section \<open>GET /redis-test with a stored value that is no number\<close>

text \<open>A request to \<^verbatim>\<open>/redis-test\<close> with the Redis client ready runs the handler.\<close>

lemma app_redis_test:
  assumes "process st = Running" and "listening st" and "redisClient st = Ready"
  shows "fst (app prom_client env (get_request ''/redis-test'') st) = fst (redis_test env st)"
    and "redis_keys (snd (app prom_client env (get_request ''/redis-test'') st))
           = redis_keys (snd (redis_test env st))"
proof -
  let ?req = "get_request ''/redis-test''"
  have "router env ?req st = handle_route RedisTestRoute env ?req st"
    by (rule router_get) (simp_all add: get_request_fields req_path_literal)
  then have r: "router env ?req st = redis_test env st"
    using assms(3) by (simp add: awaited_ready)
  show "fst (app prom_client env ?req st) = fst (redis_test env st)"
    using app_fst [OF assms(1,2), of prom_client env ?req] r by simp
  show "redis_keys (snd (app prom_client env ?req st)) = redis_keys (snd (redis_test env st))"
    using assms(1,2)
    by (cases "redis_test env st") (auto simp: app_def r on_finish_prom split: option.splits)
qed

text \<open>
  C10, as amended. If the key holds a non-empty string that \<^verbatim>\<open>parseInt\<close> reads as
  NaN, and \<^verbatim>\<open>get\<close> and \<^verbatim>\<open>set\<close> resolve, \<^verbatim>\<open>/redis-test\<close> answers 200. The count it
  computes, \<^verbatim>\<open>parseInt\<close> of the stored string plus one, is NaN; the JSON body of the
  response has no NaN and carries \<^verbatim>\<open>visit_count\<close> as \<^verbatim>\<open>null\<close>; and \<^verbatim>\<open>NaN\<close> is
  written back to the key: the value is neither rejected nor reset.
\<close>

theorem redis_test_keeps_NaN:
  assumes "redis_keys st ''visit_count'' = Some s" and "s \<noteq> []" and "parseInt s = NaN"
    and "redis_get env = Resolves" and "redis_set env = Resolves"
  shows "js_add (parseInt_of (or_zero (redis_keys st ''visit_count''))) (Num 1) = NaN
         \<and> (\<exists>res st'. redis_test env st = (Some res, st')
               \<and> statusCode res = 200
               \<and> body_field ''visit_count'' res = Some JNull
               \<and> redis_keys st' ''visit_count'' = Some ''NaN'')"
  using assms
  by (simp add: redis_test_def Let_def emit_def or_zero_def parseInt_of_def body_field_def
      res_json_def)

theorem redis_test_keeps_NaN_witness:
  "redis_keys (connectDatabases steady (boot [''visit_count'' \<mapsto> ''abc''] [])) ''visit_count''
     = Some ''abc''
   \<and> ''abc'' \<noteq> [] \<and> parseInt ''abc'' = NaN
   \<and> redis_get steady = Resolves \<and> redis_set steady = Resolves
   \<and> (\<exists>res st'. redis_test steady (connectDatabases steady (boot [''visit_count'' \<mapsto> ''abc''] []))
                    = (Some res, st')
           \<and> statusCode res = 200
           \<and> body_field ''visit_count'' res = Some JNull
           \<and> redis_keys st' ''visit_count'' = Some ''NaN'')"
proof -
  have k: "redis_keys (connectDatabases steady (boot [''visit_count'' \<mapsto> ''abc''] [])) ''visit_count''
             = Some ''abc''"
    by (simp add: connected_fields)
  have n: "''abc'' \<noteq> []"
    by simp
  from redis_test_keeps_NaN [OF k n parseInt_abc steady_ok] k parseInt_abc steady_ok
  show ?thesis by simp
qed

text \<open>
  C10 as stated fails in two ways. For the empty string: \<^verbatim>\<open>parseInt("")\<close> is NaN, yet
  the empty string is falsy, so \<^verbatim>\<open>|| 0\<close> replaces it by 0 and the request is answered
  with \<^verbatim>\<open>visit_count\<close> 1, and \<^verbatim>\<open>1\<close> is stored. For the string \<^verbatim>\<open>abc\<close>: the request is
  answered 200 and \<^verbatim>\<open>NaN\<close> is stored, but the \<^verbatim>\<open>visit_count\<close> of the response is
  \<^verbatim>\<open>null\<close>, not NaN.
\<close>

theorem redis_test_not_NaN_counterexample:
  "parseInt [] = NaN
   \<and> seen (fst (app prom_client steady (get_request ''/redis-test'')
                   (connectDatabases steady (boot [''visit_count'' \<mapsto> []] []))))
       = Some (200, Some (JNumber (Num 1)))
   \<and> redis_keys (snd (app prom_client steady (get_request ''/redis-test'')
                         (connectDatabases steady (boot [''visit_count'' \<mapsto> []] []))))
        ''visit_count''
       = Some ''1''
   \<and> parseInt ''abc'' = NaN
   \<and> seen (fst (app prom_client steady (get_request ''/redis-test'')
                   (connectDatabases steady (boot [''visit_count'' \<mapsto> ''abc''] []))))
       = Some (200, Some JNull)
   \<and> redis_keys (snd (app prom_client steady (get_request ''/redis-test'')
                         (connectDatabases steady (boot [''visit_count'' \<mapsto> ''abc''] []))))
        ''visit_count''
       = Some ''NaN''"
proof -
  let ?empty = "connectDatabases steady (boot [''visit_count'' \<mapsto> []] [])"
  let ?abc = "connectDatabases steady (boot [''visit_count'' \<mapsto> ''abc''] [])"
  have p: "parseInt_of (or_zero (Some [])) = Num 0"
    using parse_count [of 0] by (simp add: or_zero_def)
  have t: "to_number 1 = Num 1"
    by (simp add: to_number_small)
  have d: "nat_to_string (Suc 0) = ''1''"
    using dec_1 by (simp add: nat_to_string_small)
  have e: "seen (fst (redis_test steady ?empty)) = Some (200, Some (JNumber (Num 1)))"
    "redis_keys (snd (redis_test steady ?empty)) ''visit_count'' = Some ''1''"
    by (simp_all add: redis_test_def Let_def emit_def p t d body_field_def seen_def steady_ok
        connected_fields res_json_def)
  have a: "seen (fst (redis_test steady ?abc)) = Some (200, Some JNull)"
    "redis_keys (snd (redis_test steady ?abc)) ''visit_count'' = Some ''NaN''"
    by (simp_all add: redis_test_def Let_def emit_def or_zero_def parseInt_of_def parseInt_abc
        body_field_def seen_def steady_ok connected_fields res_json_def)
  show ?thesis
    by (simp only: app_redis_test [OF connected_fields(4,5,1)] e a parseInt_empty parseInt_abc
        simp_thms)
qed
section \<open>The metrics middleware\<close>

lemma redis_down_500:
  "app prom_client redis_down (get_request ''/redis-test'') (boot Map.empty [])
     = (Some (redis_failed (Error ''The client is closed'')),
        snd (app prom_client redis_down (get_request ''/redis-test'') (boot Map.empty [])))"
  "process (snd (app prom_client redis_down (get_request ''/redis-test'') (boot Map.empty [])))
     = Running"
  by (simp_all add: app_def router_def req_path_literal get_request_fields match_route_literal
      redis_test_def awaited_def redis_call_def boot_def emit_def Let_def on_finish_prom)

lemma not_found_recorded:
  "app prom_client steady (get_request ''/users/42?x=1'') (boot Map.empty [])
     = (Some \<lparr>statusCode = 404, payload = NotFoundPage\<rparr>,
        snd (app prom_client steady (get_request ''/users/42?x=1'') (boot Map.empty [])))"
  "process (snd (app prom_client steady (get_request ''/users/42?x=1'') (boot Map.empty [])))
     = Running"
  "req_path (get_request ''/users/42?x=1'') = Some ''/users/42''"
  by (simp_all add: app_def router_def req_path_literal get_request_fields match_route_none
      not_found_def boot_def on_finish_prom)

lemma root_served:
  "router steady (get_request ''/'') (boot Map.empty [])
     = (Some \<lparr>statusCode = 200, payload = Send ''Hello World! Redis and MongoDB are connected.''\<rparr>,
        boot Map.empty [])"
  "process (boot Map.empty []) = Running"
  "listening (boot Map.empty [])"
  by (simp_all add: router_def req_path_literal get_request_fields match_route_literal
      root_page_def boot_def)

text \<open>
  C1, as amended. For every request that has a pathname, and so reaches the
  middleware, and whose response has been sent with the process still running (any
  route but \<^verbatim>\<open>/crash\<close>, any status code), the middleware's \<^verbatim>\<open>finish\<close> listener runs:
  the request counter is incremented exactly once and the histogram observes the
  elapsed time exactly once, both under the same labels, which are the request's
  method, its path (the \<^verbatim>\<open>route\<close> label) and the response's status code; no other
  count or observation changes.
\<close>

theorem finished_request_recorded_once:
  assumes "app prom_client env req st = (Some res, st')" and "process st' = Running"
    and "req_path req = Some path"
  shows "httpRequestCount (metrics_registry st')
           = (httpRequestCount (metrics_registry st))
               (finish_labels req res := httpRequestCount (metrics_registry st) (finish_labels req res) + 1)
         \<and> httpRequestDurationMicroseconds (metrics_registry st')
           = (httpRequestDurationMicroseconds (metrics_registry st))
               (finish_labels req res :=
                  httpRequestDurationMicroseconds (metrics_registry st) (finish_labels req res)
                    @ [elapsed env])
         \<and> finish_labels req res
           = \<lparr>l_method = req_method req, l_route = path, l_status_code = statusCode res\<rparr>"
  using app_finish_registry [OF assms(1,2)] assms(3)
  by (simp add: prom_inc_def prom_observe_def finish_labels_def)

theorem finished_request_recorded_once_witness:
  "fst (app prom_client redis_down (get_request ''/redis-test'') (boot Map.empty []))
     = Some (redis_failed (Error ''The client is closed''))
   \<and> process (snd (app prom_client redis_down (get_request ''/redis-test'') (boot Map.empty [])))
     = Running
   \<and> httpRequestCount
        (metrics_registry (snd (app prom_client redis_down (get_request ''/redis-test'') (boot Map.empty []))))
        \<lparr>l_method = ''GET'', l_route = ''/redis-test'', l_status_code = 500\<rparr> = 1
   \<and> httpRequestDurationMicroseconds
        (metrics_registry (snd (app prom_client redis_down (get_request ''/redis-test'') (boot Map.empty []))))
        \<lparr>l_method = ''GET'', l_route = ''/redis-test'', l_status_code = 500\<rparr> = [1000]"
proof -
  have l: "finish_labels (get_request ''/redis-test'') (redis_failed (Error ''The client is closed''))
             = \<lparr>l_method = ''GET'', l_route = ''/redis-test'', l_status_code = 500\<rparr>"
    by (simp add: finish_labels_def get_request_fields req_path_literal redis_failed_def
        res_json_def)
  have e: "elapsed redis_down = 1000"
    by (simp add: redis_down_def steady_def)
  let ?st' = "snd (app prom_client redis_down (get_request ''/redis-test'') (boot Map.empty []))"
  note t = finished_request_recorded_once [OF redis_down_500 req_path_literal(1), unfolded l e]
  from t have c: "httpRequestCount (metrics_registry ?st')
                    \<lparr>l_method = ''GET'', l_route = ''/redis-test'', l_status_code = 500\<rparr> = 1"
    by (simp add: boot_def)
  from t have h: "httpRequestDurationMicroseconds (metrics_registry ?st')
                    \<lparr>l_method = ''GET'', l_route = ''/redis-test'', l_status_code = 500\<rparr> = [1000]"
    by (simp add: boot_def)
  have f: "fst (app prom_client redis_down (get_request ''/redis-test'') (boot Map.empty []))
             = Some (redis_failed (Error ''The client is closed''))"
    by (subst redis_down_500(1)) simp
  from f redis_down_500(2) c h show ?thesis
    by blast
qed

text \<open>
  C1 as stated fails for \<^verbatim>\<open>GET /crash\<close>: the handler sends its 200 response and then
  calls \<^verbatim>\<open>process.exit(1)\<close>, so the \<^verbatim>\<open>finish\<close> listener never runs and the request is
  neither counted nor observed. It also fails for a request whose target has no
  pathname, such as \<^verbatim>\<open>GET foo://host\<close>: the router answers it with the 404 page
  without running the middleware, and nothing is recorded.
\<close>

theorem crash_not_recorded_counterexample:
  "fst (app prom_client steady (get_request ''/crash'') (boot Map.empty []))
     = Some \<lparr>statusCode = 200, payload = Send ''Service is crashing...''\<rparr>
   \<and> process (snd (app prom_client steady (get_request ''/crash'') (boot Map.empty []))) = Exited 1
   \<and> httpRequestCount
        (metrics_registry (snd (app prom_client steady (get_request ''/crash'') (boot Map.empty []))))
        \<lparr>l_method = ''GET'', l_route = ''/crash'', l_status_code = 200\<rparr> = 0
   \<and> httpRequestDurationMicroseconds
        (metrics_registry (snd (app prom_client steady (get_request ''/crash'') (boot Map.empty []))))
        \<lparr>l_method = ''GET'', l_route = ''/crash'', l_status_code = 200\<rparr> = []
   \<and> req_path pathless_request = None
   \<and> app prom_client steady pathless_request (boot Map.empty [])
       = (Some \<lparr>statusCode = 404, payload = NotFoundPage\<rparr>, boot Map.empty [])"
  by (simp add: app_def router_def req_path_literal req_path_slow get_request_fields
      match_route_literal crash_def process_exit_def not_found_def boot_def emit_def)

text \<open>
  C3, as amended. The \<^verbatim>\<open>route\<close> label the middleware records is the request's path,
  \<^verbatim>\<open>req.path\<close>, whether or not a route matched: for a target that \<^verbatim>\<open>parseurl\<close> reads
  by itself the URL up to its query string, and otherwise the pathname that
  \<^verbatim>\<open>url.parse\<close> finds in the target. So a request to \<^verbatim>\<open>/mongo-test?x=1\<close> is labelled
  \<^verbatim>\<open>/mongo-test\<close>, and a request whose path is a declared route path is labelled with
  that route path, which is the route it matches; but every such target without a
  query string is its own label, so the declared routes do not bound the labels. The
  count recorded for a finished request is the one under this label.
\<close>

theorem route_label_is_request_path:
  "(req_path req = Some path \<longrightarrow> l_route (finish_labels req res) = path)
   \<and> (fast_path (req_url req) \<longrightarrow>
        req_path req = Some (takeWhile (\<lambda>c. c \<noteq> CHR ''?'') (req_url req)))
   \<and> (\<not> fast_path (req_url req) \<longrightarrow> req_path req = url_parse_pathname req)
   \<and> l_route (finish_labels (get_request ''/mongo-test?x=1'') res) = ''/mongo-test''
   \<and> (req_path req = Some (route_path r) \<longrightarrow>
        match_route (route_path r) = Some r \<and> l_route (finish_labels req res) = route_path r)
   \<and> (fast_path url \<and> CHR ''?'' \<notin> set url \<longrightarrow>
        l_route (finish_labels (get_request url) res) = url)
   \<and> (app prom_client env req st = (Some res, st') \<and> process st' = Running
        \<and> req_path req = Some path \<longrightarrow>
        httpRequestCount (metrics_registry st')
          \<lparr>l_method = req_method req, l_route = path, l_status_code = statusCode res\<rparr>
        = httpRequestCount (metrics_registry st)
          \<lparr>l_method = req_method req, l_route = path, l_status_code = statusCode res\<rparr> + 1)"
proof (intro conjI impI)
  show "l_route (finish_labels req res) = path" if "req_path req = Some path"
    using that by (simp add: finish_labels_def)
  show "req_path req = Some (takeWhile (\<lambda>c. c \<noteq> CHR ''?'') (req_url req))"
    if "fast_path (req_url req)"
    using that by (simp add: req_path_def)
  show "req_path req = url_parse_pathname req" if "\<not> fast_path (req_url req)"
    using that by (simp add: req_path_def)
  show "l_route (finish_labels (get_request ''/mongo-test?x=1'') res) = ''/mongo-test''"
    by (simp add: finish_labels_def req_path_literal)
  show "match_route (route_path r) = Some r"
    by (rule match_route_exact)
  show "l_route (finish_labels req res) = route_path r" if "req_path req = Some (route_path r)"
    using that by (simp add: finish_labels_def)
  show "l_route (finish_labels (get_request url) res) = url"
    if "fast_path url \<and> CHR ''?'' \<notin> set url"
    using that by (auto simp: finish_labels_def req_path_fast takeWhile_eq_all_conv)
  show "httpRequestCount (metrics_registry st')
          \<lparr>l_method = req_method req, l_route = path, l_status_code = statusCode res\<rparr>
        = httpRequestCount (metrics_registry st)
          \<lparr>l_method = req_method req, l_route = path, l_status_code = statusCode res\<rparr> + 1"
    if "app prom_client env req st = (Some res, st') \<and> process st' = Running
        \<and> req_path req = Some path"
    using app_finish_registry [of env req st res st'] that
    by (simp add: prom_inc_def prom_observe_def finish_labels_def)
qed

theorem route_label_is_request_path_witness:
  "req_path (get_request ''/users/42?x=1'') = Some ''/users/42''
   \<and> l_route (finish_labels (get_request ''/users/42?x=1'') \<lparr>statusCode = 404, payload = NotFoundPage\<rparr>)
       = ''/users/42''
   \<and> req_path (get_request ''/health'') = Some (route_path HealthRoute)
   \<and> match_route (route_path HealthRoute) = Some HealthRoute
   \<and> l_route (finish_labels (get_request ''/health'') \<lparr>statusCode = 404, payload = NotFoundPage\<rparr>)
       = ''/health''
   \<and> fast_path ''/users/42'' \<and> CHR ''?'' \<notin> set ''/users/42''
   \<and> l_route (finish_labels (get_request ''/users/42'') \<lparr>statusCode = 404, payload = NotFoundPage\<rparr>)
       = ''/users/42''
   \<and> \<not> fast_path (req_url fragment_request)
   \<and> req_path fragment_request = Some ''/health''
   \<and> l_route (finish_labels fragment_request \<lparr>statusCode = 404, payload = NotFoundPage\<rparr>)
       = ''/health''
   \<and> process (snd (app prom_client steady (get_request ''/users/42?x=1'') (boot Map.empty [])))
       = Running
   \<and> httpRequestCount
        (metrics_registry (snd (app prom_client steady (get_request ''/users/42?x=1'') (boot Map.empty []))))
        \<lparr>l_method = ''GET'', l_route = ''/users/42'', l_status_code = 404\<rparr> = 1"
proof -
  let ?req = "get_request ''/users/42?x=1''"
  let ?res = "\<lparr>statusCode = 404, payload = NotFoundPage\<rparr>"
  let ?st' = "snd (app prom_client steady ?req (boot Map.empty []))"
  note t = route_label_is_request_path
    [of ?req "''/users/42''" ?res HealthRoute "''/users/42''" steady "boot Map.empty []" ?st']
  have m: "req_method ?req = ''GET''" "statusCode ?res = 404"
    by (simp_all add: get_request_fields)
  from t not_found_recorded
  have c: "httpRequestCount (metrics_registry ?st')
             \<lparr>l_method = ''GET'', l_route = ''/users/42'', l_status_code = 404\<rparr> = 1"
    by (simp add: m boot_def)
  from t not_found_recorded(3) have l: "l_route (finish_labels ?req ?res) = ''/users/42''"
    by blast
  have h: "req_path (get_request ''/health'') = Some (route_path HealthRoute)"
    by (simp add: req_path_literal)
  from route_label_is_request_path [of "get_request ''/health''" _ ?res HealthRoute] h
  have mh: "match_route (route_path HealthRoute) = Some HealthRoute"
    and lh: "l_route (finish_labels (get_request ''/health'') ?res) = ''/health''"
    by simp_all
  have f: "fast_path ''/users/42''" "CHR ''?'' \<notin> set ''/users/42''"
    by (simp_all add: fast_path_def leaves_fast_path_def)
  from route_label_is_request_path [where url = "''/users/42''" and res = ?res] f
  have lu: "l_route (finish_labels (get_request ''/users/42'') ?res) = ''/users/42''"
    by blast
  have nf: "\<not> fast_path (req_url fragment_request)"
    by (simp add: fragment_request_def get_request_def fast_path_def leaves_fast_path_def)
  from route_label_is_request_path [where req = fragment_request and res = ?res
      and path = "''/health''"] nf
  have pf: "req_path fragment_request = Some ''/health''"
    and lf: "l_route (finish_labels fragment_request ?res) = ''/health''"
    by (simp_all add: fragment_request_def)
  from not_found_recorded(2,3) l h mh lh f lu nf pf lf c show ?thesis
    by blast
qed

text \<open>
  C3 as stated fails for a request to \<^verbatim>\<open>/users/42?x=1\<close>: no route matches it, it is
  answered 404, and it is counted under the label \<^verbatim>\<open>/users/42\<close>, which is no declared
  route.
\<close>

theorem unmatched_path_label_counterexample:
  "req_path (get_request ''/users/42?x=1'') = Some ''/users/42''
   \<and> match_route ''/users/42'' = None
   \<and> ''/users/42'' \<notin> set (map route_path routes)
   \<and> fst (app prom_client steady (get_request ''/users/42?x=1'') (boot Map.empty []))
       = Some \<lparr>statusCode = 404, payload = NotFoundPage\<rparr>
   \<and> httpRequestCount
        (metrics_registry (snd (app prom_client steady (get_request ''/users/42?x=1'') (boot Map.empty []))))
        \<lparr>l_method = ''GET'', l_route = ''/users/42'', l_status_code = 404\<rparr> = 1"
proof -
  let ?req = "get_request ''/users/42?x=1''"
  let ?res = "\<lparr>statusCode = 404, payload = NotFoundPage\<rparr>"
  let ?st' = "snd (app prom_client steady ?req (boot Map.empty []))"
  have l: "finish_labels ?req ?res
             = \<lparr>l_method = ''GET'', l_route = ''/users/42'', l_status_code = 404\<rparr>"
    by (simp add: finish_labels_def get_request_fields req_path_literal)
  have p: "req_path ?req \<noteq> None"
    by (simp add: req_path_literal)
  from app_finish_registry [OF not_found_recorded(1,2) p]
  have c: "httpRequestCount (metrics_registry ?st')
             \<lparr>l_method = ''GET'', l_route = ''/users/42'', l_status_code = 404\<rparr> = 1"
    by (simp add: l prom_inc_def prom_observe_def boot_def)
  have f: "fst (app prom_client steady ?req (boot Map.empty [])) = Some ?res"
    by (subst not_found_recorded(1)) simp
  have m: "req_path ?req = Some ''/users/42''" "match_route ''/users/42'' = None"
    by (simp_all add: not_found_recorded(3) match_route_none)
  have r: "''/users/42'' \<notin> set (map route_path routes)"
    by (simp add: routes_def)
  from m r f c show ?thesis
    by blast
qed

text \<open>
  A request to \<^verbatim>\<open>/health#frag\<close> is served by the \<^verbatim>\<open>/health\<close> route and counted
  under \<^verbatim>\<open>/health\<close>.
\<close>

lemma fragment_served:
  "map_option statusCode
     (fst (app prom_client steady fragment_request (connectDatabases steady (boot Map.empty []))))
     = Some 200
   \<and> map_option (body_field ''status'')
        (fst (app prom_client steady fragment_request (connectDatabases steady (boot Map.empty []))))
     = Some (Some (JString ''OK''))
   \<and> httpRequestCount
        (metrics_registry
           (snd (app prom_client steady fragment_request (connectDatabases steady (boot Map.empty [])))))
        \<lparr>l_method = ''GET'', l_route = ''/health'', l_status_code = 200\<rparr> = 1"
proof -
  let ?up = "connectDatabases steady (boot Map.empty [])"
  have q: "req_method fragment_request = ''GET''"
    "req_path fragment_request = Some (route_path HealthRoute)"
    by (simp add: fragment_request_def get_request_def, simp add: req_path_slow)
  have r: "router steady fragment_request ?up = health_check steady ?up"
    using router_get [OF q, of steady ?up] by (simp add: awaited_ready connected_fields)
  let ?res = "\<lparr>statusCode = 200,
             payload = Json (JObject [(''status'', JString ''OK''),
                                      (''timestamp'', JString ''1970-01-01T00:00:00.000Z''),
                                      (''services'', JObject [(''redis'', JString ''connected''),
                                                              (''mongodb'', JString ''connected'')])])\<rparr>"
  from health_samples(1) obtain st1 where h: "health_check steady ?up = (Some ?res, st1)"
    by (cases "health_check steady ?up") simp
  have p: "process st1 = Running" "metrics_registry st1 = metrics_registry ?up"
    using health_check_frame [of steady ?up] connected_fields(4) by (simp_all add: h)
  have l: "finish_labels fragment_request res
             = \<lparr>l_method = ''GET'', l_route = ''/health'', l_status_code = statusCode res\<rparr>" for res
    using q by (simp add: finish_labels_def)
  show ?thesis
    using q(2) connected_fields(4,5,9)
    by (simp add: app_def r h p on_finish_prom l prom_inc_def prom_observe_def body_field_def)
qed

text \<open>
  C8, as amended. For a request that has a pathname, and so reaches the middleware:
  whatever the counter increment and the histogram observation of the metrics library
  do, the middleware leaves the response as the handler made it:
  the two calls run in the \<^verbatim>\<open>finish\<close> listener, after the response has been sent.
  The listener catches nothing. When both calls return, nothing is thrown and the
  process goes on running; an error thrown by the increment, or by the observation
  after it, leaves the listener as an uncaught exception of the process.
\<close>

theorem metrics_errors_propagate:
  assumes "process st = Running" and "listening st"
    and "router env req st = (Some res, st1)" and "process st1 = Running"
    and "req_path req \<noteq> None"
  shows "fst (app lib env req st) = Some res
         \<and> (\<forall>e. counter_inc lib (finish_labels req res) (metrics_registry st1) = Inl e \<longrightarrow>
               process (snd (app lib env req st)) = Uncaught e)
         \<and> (\<forall>r1 e. counter_inc lib (finish_labels req res) (metrics_registry st1) = Inr r1
                 \<and> timer_end lib (finish_labels req res) (elapsed env) r1 = Inl e \<longrightarrow>
               process (snd (app lib env req st)) = Uncaught e)
         \<and> (\<forall>r1 r2. counter_inc lib (finish_labels req res) (metrics_registry st1) = Inr r1
                 \<and> timer_end lib (finish_labels req res) (elapsed env) r1 = Inr r2 \<longrightarrow>
               process (snd (app lib env req st)) = Running
               \<and> metrics_registry (snd (app lib env req st)) = r2)"
  using assms by (simp add: app_def on_finish_def)

theorem metrics_errors_propagate_witness:
  "process (boot Map.empty []) = Running \<and> listening (boot Map.empty [])
   \<and> fst (app prom_client steady (get_request ''/'') (boot Map.empty []))
       = Some \<lparr>statusCode = 200, payload = Send ''Hello World! Redis and MongoDB are connected.''\<rparr>
   \<and> process (snd (app prom_client steady (get_request ''/'') (boot Map.empty []))) = Running"
proof -
  have q: "req_path (get_request ''/'') \<noteq> None"
    by (simp add: req_path_literal)
  note t = metrics_errors_propagate [OF root_served(2,3,1,2) q, of prom_client]
  from t have f: "fst (app prom_client steady (get_request ''/'') (boot Map.empty []))
       = Some \<lparr>statusCode = 200, payload = Send ''Hello World! Redis and MongoDB are connected.''\<rparr>"
    by blast
  from t have p: "process (snd (app prom_client steady (get_request ''/'') (boot Map.empty []))) = Running"
    by (simp add: prom_client_def)
  from root_served(2,3) f p show ?thesis
    by blast
qed

text \<open>
  C8 as stated fails with a metrics library whose counter throws: a request to
  \<^verbatim>\<open>/\<close> is answered, and the error then leaves the \<^verbatim>\<open>finish\<close> listener uncaught.
\<close>

theorem throwing_counter_counterexample:
  "fst (app throwing_counter steady (get_request ''/'') (boot Map.empty []))
     = Some \<lparr>statusCode = 200, payload = Send ''Hello World! Redis and MongoDB are connected.''\<rparr>
   \<and> process (snd (app throwing_counter steady (get_request ''/'') (boot Map.empty [])))
     = Uncaught (Error ''inc failed'')"
  by (simp add: app_def root_served on_finish_def throwing_counter_def prom_client_def
      req_path_literal)

section \<open>Shutdown\<close>

text \<open>
  What the SIGTERM handler does when the calls it awaits settle: it stops the
  listener, sends \<^verbatim>\<open>quit\<close> to Redis and then closes the MongoDB client if there is
  one, whether or not the \<^verbatim>\<open>quit\<close> was rejected, and exits with code 0. The number of
  requests in flight plays no part, and is what it was.
\<close>

lemma sigterm_settled:
  assumes "process st = Running" and "redis_quit (awaited st env) \<noteq> Pends"
    and "mongoClient st \<longrightarrow> mongo_close env \<noteq> Pends"
  shows "process (sigterm env st) = Exited 0 \<and> \<not> listening (sigterm env st)
         \<and> inflight (sigterm env st) = inflight st
         \<and> last (trace (sigterm env st)) = Exit 0
         \<and> Call ''redisClient.quit'' \<in> set (trace (sigterm env st))
         \<and> (mongoClient st \<longrightarrow> Call ''mongoClient.close'' \<in> set (trace (sigterm env st)))"
  using assms
  by (cases "redis_quit (awaited st env)"; cases "mongo_close env")
     (auto simp: sigterm_def close_mongo_and_exit_def process_exit_def emit_def Let_def)

text \<open>
  C9. The code does not do what the claim says. With one request in flight when
  SIGTERM arrives (a \<^verbatim>\<open>GET /mongo-test\<close> waiting for its insert) and both closes
  resolving, the handler stops the listener, closes Redis and MongoDB and exits with
  code 0 while the request is still unanswered: it never waits for
  \<^verbatim>\<open>server.close\<close> to finish, whose callback (the line \<^verbatim>\<open>HTTP server closed\<close>) does not
  run.
\<close>

theorem sigterm_exits_with_request_in_flight:
  "fst (app prom_client mongo_slow (get_request ''/mongo-test'')
          (connectDatabases steady (boot Map.empty []))) = None
   \<and> inflight (snd (app prom_client mongo_slow (get_request ''/mongo-test'')
                      (connectDatabases steady (boot Map.empty [])))) = 1
   \<and> process (sigterm steady (snd (app prom_client mongo_slow (get_request ''/mongo-test'')
                      (connectDatabases steady (boot Map.empty []))))) = Exited 0
   \<and> inflight (sigterm steady (snd (app prom_client mongo_slow (get_request ''/mongo-test'')
                      (connectDatabases steady (boot Map.empty []))))) = 1
   \<and> trace (sigterm steady (snd (app prom_client mongo_slow (get_request ''/mongo-test'')
                      (connectDatabases steady (boot Map.empty [])))))
       = [Call ''redisClient.connect'', Console ''Connected to Redis'',
          Call ''mongoClient.connect'', Console ''Connected to MongoDB'',
          Call ''collection.insertOne'',
          Console ''SIGTERM received, shutting down gracefully'',
          Call ''server.close'', Call ''redisClient.quit'',
          Console ''Redis connection closed'',
          Call ''mongoClient.close'', Console ''MongoDB connection closed'',
          Exit 0]"
  by (simp add: app_def router_def req_path_literal get_request_fields match_route_literal
      mongo_test_def mongo_slow_def sigterm_def close_mongo_and_exit_def process_exit_def
      awaited_def redis_call_def connectDatabases_def steady_def boot_def emit_def Let_def)


end
